theory Spec2Isabelle
  imports Complex_Main "HOL-Library.AList"
begin

section \<open>Data model (types.go)\<close>

text \<open>
  The Go types \<^verbatim>\<open>Provider\<close> and \<^verbatim>\<open>MessageRole\<close> are named string types, so a value of
  either is any string; the declared constants are particular strings. Pointer-typed
  optional fields (\<^verbatim>\<open>*float64\<close>, \<^verbatim>\<open>*int\<close>, \<^verbatim>\<open>*string\<close>) are options, \<^verbatim>\<open>nil\<close> being \<open>None\<close>.
  A \<^verbatim>\<open>float64\<close> is only ever carried from a request or a response body into a payload or a
  result, never computed with, so it is modelled by a real number. A Go \<^verbatim>\<open>int\<close> that is only
  carried is an \<open>int\<close>. \<^verbatim>\<open>map[string]interface{}\<close> is a partial map from keys to JSON-like
  values; nested object literals are association lists written in the order of the source.

  Isabelle record fields share one name space, so where two Go structs have a field of the
  same name the second one carries a prefix: \<open>ReqMessages\<close> is \<^verbatim>\<open>Request.Messages\<close>,
  \<open>RespContent\<close> and \<open>RespRole\<close> are \<^verbatim>\<open>Response.Content\<close> and \<^verbatim>\<open>Response.Role\<close>,
  \<open>EmbModel\<close> is \<^verbatim>\<open>EmbeddingRequest.Model\<close>, and the fields of \<^verbatim>\<open>EmbeddingResponse\<close> start
  with \<open>Emb\<close>.
\<close>

type_synonym float64 = real

type_synonym Provider = string

definition ProviderOpenAI :: Provider where "ProviderOpenAI = ''openai''"
definition ProviderDeepSeek :: Provider where "ProviderDeepSeek = ''deepseek''"
definition ProviderQwen :: Provider where "ProviderQwen = ''qwen''"
definition ProviderAzure :: Provider where "ProviderAzure = ''azure''"

text \<open>
  The constant \<^verbatim>\<open>ProviderCohere\<close> is not declared in types.go as it stands; its
  value is the one the release notes and the changelog give: \<^verbatim>\<open>ProviderCohere Provider = "cohere"\<close>.
\<close>

definition ProviderCohere :: Provider where "ProviderCohere = ''cohere''"

type_synonym MessageRole = string

definition RoleSystem :: MessageRole where "RoleSystem = ''system''"
definition RoleUser :: MessageRole where "RoleUser = ''user''"
definition RoleAssistant :: MessageRole where "RoleAssistant = ''assistant''"
definition RoleFunction :: MessageRole where "RoleFunction = ''function''"

record Message =
  Role :: MessageRole
  Content :: string
  Name :: string

datatype json =
    JNull
  | JBool bool
  | JInt int
  | JFloat float64
  | JString string
  | JArray "json list"
  | JObject "(string \<times> json) list"

type_synonym payload = "string \<rightharpoonup> json"

record ChatHistory =
  Messages :: "Message list"

record Request =
  ReqMessages :: "Message list"
  SystemPrompt :: string
  Temperature :: "float64 option"
  MaxTokens :: "int option"
  TopP :: "float64 option"
  TopK :: "int option"
  Stream :: bool
  ExtraParams :: payload
  Model :: "string option"

record StreamChunk =
  ChunkContent :: string
  ChunkFinishReason :: string
  Done :: bool

record Response =
  RespContent :: string
  RespRole :: MessageRole
  TokensUsed :: int
  ResponseTime :: int
  FinishReason :: string
  RespStream :: "StreamChunk list option"

record Config =
  Provider :: Provider
  APIKey :: string
  BaseURL :: string
  Timeout :: int
  DefaultModel :: string
  DefaultTemperature :: "float64 option"
  DefaultMaxTokens :: "int option"
  DefaultTopP :: "float64 option"
  DefaultTopK :: "int option"
  ExtraConfig :: payload

text \<open>
  \<^verbatim>\<open>EmbeddingRequest\<close> and \<^verbatim>\<open>EmbeddingResponse\<close> are used by the adapters and declared
  in the release notes (\<^verbatim>\<open>Input []string\<close>, \<^verbatim>\<open>Model *string\<close>; \<^verbatim>\<open>Embeddings [][]float64\<close>,
  \<^verbatim>\<open>Model string\<close>, \<^verbatim>\<open>TokensUsed int\<close>, \<^verbatim>\<open>ResponseTime time.Duration\<close>).
\<close>

record EmbeddingRequest =
  Input :: "string list"
  EmbModel :: "string option"

record EmbeddingResponse =
  Embeddings :: "float64 list list"
  EmbRespModel :: string
  EmbTokensUsed :: int
  EmbResponseTime :: int

text \<open>The zero value of \<^verbatim>\<open>Request\<close>, which a composite literal leaves in every field it does not name.\<close>

definition zeroRequest :: Request where
  "zeroRequest =
     \<lparr>ReqMessages = [], SystemPrompt = [], Temperature = None, MaxTokens = None,
      TopP = None, TopK = None, Stream = False, ExtraParams = Map.empty, Model = None\<rparr>"

section \<open>Request and history helpers (client.go)\<close>

definition BuildSimpleRequest :: "string \<Rightarrow> Request" where
  "BuildSimpleRequest message =
     zeroRequest\<lparr>ReqMessages := [\<lparr>Role = RoleUser, Content = message, Name = []\<rparr>]\<rparr>"

text \<open>
  \<^verbatim>\<open>BuildChatRequest\<close> makes a fresh slice of capacity \<^verbatim>\<open>len(history)+1\<close>, appends the history
  and then the new user message. On values this is list concatenation; the version on an
  explicit store, with the backing arrays, is \<open>BuildChatRequest_st\<close> below.
\<close>

definition BuildChatRequest :: "Message list \<Rightarrow> string \<Rightarrow> Request" where
  "BuildChatRequest history userMessage =
     (let messages = [];
          messages = messages @ history;
          messages = messages @ [\<lparr>Role = RoleUser, Content = userMessage, Name = []\<rparr>]
      in zeroRequest\<lparr>ReqMessages := messages\<rparr>)"

definition BuildRequestWithSystemPrompt :: "string \<Rightarrow> string \<Rightarrow> Request" where
  "BuildRequestWithSystemPrompt systemPrompt userMessage =
     zeroRequest\<lparr>ReqMessages :=
       [\<lparr>Role = RoleSystem, Content = systemPrompt, Name = []\<rparr>,
        \<lparr>Role = RoleUser, Content = userMessage, Name = []\<rparr>]\<rparr>"

definition AddSystemMessage :: "string \<Rightarrow> Request \<Rightarrow> Request" where
  "AddSystemMessage content r =
     r\<lparr>ReqMessages := [\<lparr>Role = RoleSystem, Content = content, Name = []\<rparr>] @ ReqMessages r\<rparr>"

definition AddUserMessage :: "string \<Rightarrow> Request \<Rightarrow> Request" where
  "AddUserMessage content r =
     r\<lparr>ReqMessages := ReqMessages r @ [\<lparr>Role = RoleUser, Content = content, Name = []\<rparr>]\<rparr>"

definition AddAssistantMessage :: "string \<Rightarrow> Request \<Rightarrow> Request" where
  "AddAssistantMessage content r =
     r\<lparr>ReqMessages := ReqMessages r @ [\<lparr>Role = RoleAssistant, Content = content, Name = []\<rparr>]\<rparr>"

definition SetTemperature :: "float64 \<Rightarrow> Request \<Rightarrow> Request" where
  "SetTemperature temp r = r\<lparr>Temperature := Some temp\<rparr>"

definition SetMaxTokens :: "int \<Rightarrow> Request \<Rightarrow> Request" where
  "SetMaxTokens tokens r = r\<lparr>MaxTokens := Some tokens\<rparr>"

definition SetTopP :: "float64 \<Rightarrow> Request \<Rightarrow> Request" where
  "SetTopP topP r = r\<lparr>TopP := Some topP\<rparr>"

definition SetTopK :: "int \<Rightarrow> Request \<Rightarrow> Request" where
  "SetTopK topK r = r\<lparr>TopK := Some topK\<rparr>"

definition SetModel :: "string \<Rightarrow> Request \<Rightarrow> Request" where
  "SetModel model r = r\<lparr>Model := Some model\<rparr>"

definition SetStreaming :: "bool \<Rightarrow> Request \<Rightarrow> Request" where
  "SetStreaming stream r = r\<lparr>Stream := stream\<rparr>"

definition AddMessage :: "MessageRole \<Rightarrow> string \<Rightarrow> ChatHistory \<Rightarrow> ChatHistory" where
  "AddMessage role content h =
     h\<lparr>Messages := Messages h @ [\<lparr>Role = role, Content = content, Name = []\<rparr>]\<rparr>"

definition GetMessages :: "ChatHistory \<Rightarrow> Message list" where
  "GetMessages h = Messages h"

definition Clear :: "ChatHistory \<Rightarrow> ChatHistory" where
  "Clear h = h\<lparr>Messages := []\<rparr>"

definition GetLastMessage :: "ChatHistory \<Rightarrow> Message option" where
  "GetLastMessage h =
     (if length (Messages h) = 0 then None
      else Some (Messages h ! (length (Messages h) - 1)))"

text \<open>
  \<^verbatim>\<open>Truncate\<close> reslices \<^verbatim>\<open>h.Messages[len(h.Messages)-n:]\<close> when \<^verbatim>\<open>len(h.Messages) > n\<close>. The
  argument is a signed Go \<^verbatim>\<open>int\<close>. For a negative \<^verbatim>\<open>n\<close> the test holds and the lower bound
  \<^verbatim>\<open>len-n\<close> lies above the length (or, wrapped to 64 bits, below zero), so the slice expression
  panics with "slice bounds out of range": the result \<open>None\<close>. For \<^verbatim>\<open>0 <= n < len\<close> the bound
  lies in \<^verbatim>\<open>1..len\<close> and nothing wraps.
\<close>

definition Truncate :: "int \<Rightarrow> ChatHistory \<Rightarrow> ChatHistory option" where
  "Truncate n h =
     (if int (length (Messages h)) > n then
        (let low = int (length (Messages h)) - n
         in if low < 0 \<or> low > int (length (Messages h)) then None
            else Some (h\<lparr>Messages := drop (nat low) (Messages h)\<rparr>))
      else Some h)"

section \<open>Errors, the HTTP transport and the library functions\<close>

text \<open>
  The adapters return errors built by \<^verbatim>\<open>fmt.Errorf\<close>. Each constructor below stands for one
  class of the error taxonomy and carries what the message is built from: the fixed message
  text, or the arguments of a formatted message (the provider tag; the API name, the status
  code and the body of \<^verbatim>\<open>"<API> error %d: %s"\<close>).
  \<^item> \<open>ConfigurationError\<close>: \<^verbatim>\<open>"API key is required"\<close>, \<^verbatim>\<open>"base URL is required for Azure OpenAI"\<close>,
    \<^verbatim>\<open>"Azure OpenAI URL must include deployment name: /deployments/<deployment-name>"\<close>;
  \<^item> \<open>UnsupportedProviderError\<close>: \<^verbatim>\<open>"unsupported LLM provider: %s"\<close>;
  \<^item> \<open>UnsupportedOperationError\<close>: \<^verbatim>\<open>"embeddings not supported for Azure provider yet"\<close>;
  \<^item> \<open>MarshalError\<close>: \<^verbatim>\<open>"failed to marshal request"\<close>;
  \<^item> \<open>TransportError\<close>: \<^verbatim>\<open>"failed to create request"\<close>, \<^verbatim>\<open>"failed to send request"\<close>,
    \<^verbatim>\<open>"failed to read response"\<close>;
  \<^item> \<open>RemoteAPIError\<close>: a status code outside 200..299;
  \<^item> \<open>DecodeError\<close>: \<^verbatim>\<open>"failed to unmarshal response"\<close>;
  \<^item> \<open>EmptyResultError\<close>: \<^verbatim>\<open>"no choices in ..."\<close>, \<^verbatim>\<open>"no embeddings in response"\<close>.
\<close>

datatype error =
    ConfigurationError string
  | UnsupportedProviderError Provider
  | UnsupportedOperationError string
  | MarshalError string
  | TransportError string
  | RemoteAPIError string int string
  | DecodeError string
  | EmptyResultError string

datatype "context" = Context nat

record HTTPRequest =
  ReqCtx :: "context"
  Method :: string
  URL :: string
  Header :: "(string \<times> string) list"
  Body :: string

text \<open>A response as the adapter sees it: the status code, and the body that \<^verbatim>\<open>io.ReadAll\<close>
  returns (\<open>None\<close> when reading fails).\<close>

record HTTPResponse =
  StatusCode :: int
  RespBody :: "string option"

text \<open>The anonymous structs that the adapters decode a response body into.\<close>

record Choice =
  MessageRole :: string
  MessageContent :: string
  ChoiceFinishReason :: string

record ChatAPIResp =
  Choices :: "Choice list"
  PromptTokens :: int
  CompletionTokens :: int
  TotalTokens :: int

record QwenAPIResp =
  OutputText :: string
  QwenTotalTokens :: int
  RequestId :: string

record CohereChatResp =
  Text :: string
  ChatInputTokens :: int
  ChatOutputTokens :: int
  CohereFinishReason :: string

record CohereEmbedResp =
  RespEmbeddings :: "float64 list list"
  ID :: string
  EmbedInputTokens :: int

text \<open>The response of the OpenAI embeddings endpoint, as the spec describes it:
  \<^verbatim>\<open>data[]\<close> with an index and an embedding each, and \<^verbatim>\<open>usage.total_tokens\<close>.\<close>

record OpenAIEmbedItem =
  ItemIndex :: int
  ItemEmbedding :: "float64 list"

record OpenAIEmbedResp =
  Data :: "OpenAIEmbedItem list"
  EmbedTotalTokens :: int

text \<open>
  What the standard library and the remote side do is a parameter of the model:
  \<^item> \<open>json_Marshal\<close>: \<^verbatim>\<open>json.Marshal\<close> of a payload (\<open>None\<close> when it fails);
  \<^item> \<open>newRequestOK\<close>: whether \<^verbatim>\<open>http.NewRequestWithContext\<close> accepts the context and the URL;
  \<^item> \<open>httpDo\<close>: \<^verbatim>\<open>httpClient.Do\<close>, given the requests handed to the transport so far and the
    new one (\<open>None\<close> when it fails, which includes cancellation and the client's timeout);
  \<^item> \<open>unmarshal...\<close>: \<^verbatim>\<open>json.Unmarshal\<close> into each response struct (\<open>None\<close> when it fails);
  \<^item> \<open>since\<close>: the value of \<^verbatim>\<open>time.Since(startTime)\<close>;
  \<^item> \<open>growslice\<close>: the capacity the runtime gives a reallocated slice, from the old capacity
    and the length needed (the store model below never uses less than the length needed).
\<close>

record env =
  json_Marshal :: "payload \<Rightarrow> string option"
  newRequestOK :: "context \<Rightarrow> string \<Rightarrow> bool"
  httpDo :: "HTTPRequest list \<Rightarrow> HTTPRequest \<Rightarrow> HTTPResponse option"
  unmarshalChat :: "string \<Rightarrow> ChatAPIResp option"
  unmarshalQwen :: "string \<Rightarrow> QwenAPIResp option"
  unmarshalCohereChat :: "string \<Rightarrow> CohereChatResp option"
  unmarshalCohereEmbed :: "string \<Rightarrow> CohereEmbedResp option"
  unmarshalOpenAIEmbed :: "string \<Rightarrow> OpenAIEmbedResp option"
  since :: int
  growslice :: "nat \<Rightarrow> nat \<Rightarrow> nat"

text \<open>\<^verbatim>\<open>strings.Contains(s, substr)\<close>: some suffix of \<open>s\<close> starts with \<open>substr\<close>.\<close>

fun strings_Contains :: "string \<Rightarrow> string \<Rightarrow> bool" where
  "strings_Contains [] substr = (substr = [])"
| "strings_Contains (c # s) substr =
     (take (length substr) (c # s) = substr \<or> strings_Contains s substr)"

text \<open>Addition of two Go \<^verbatim>\<open>int\<close> values wraps around at 64 bits; \<open>wrap64\<close> is the signed 64-bit
  value of an integer.\<close>

definition wrap64 :: "int \<Rightarrow> int" where
  "wrap64 x = (x + 2 ^ 63) mod 2 ^ 64 - 2 ^ 63"

definition time_Second :: int where
  "time_Second = 1000000000"

section \<open>The adapters' constructors and the factory\<close>

text \<open>
  Every adapter struct has the same two fields, \<^verbatim>\<open>config\<close> and \<^verbatim>\<open>httpClient\<close> (here
  \<open>clientConfig\<close> and \<open>clientHTTP\<close>, the source's names being those of its parameters too);
  the \<^verbatim>\<open>http.Client\<close> is created with the configured timeout. A value of the interface type
  \<^verbatim>\<open>Client\<close> is one of the adapters. The sources hold two revisions of the Qwen adapter: the one
  that posts to the OpenAI-compatible endpoint (\<open>QwenClient\<close>) and the earlier one that posts
  a single prompt to the text-generation endpoint (\<open>QwenLegacyClient\<close>).
\<close>

record httpClient =
  ClientTimeout :: int

record adapter =
  clientConfig :: Config
  clientHTTP :: httpClient

datatype Client =
    OpenAIClient adapter
  | QwenClient adapter
  | QwenLegacyClient adapter
  | AzureClient adapter
  | CohereClient adapter

definition newOpenAIClient :: "Config \<Rightarrow> error + adapter" where
  "newOpenAIClient config =
     (if APIKey config = [] then Inl (ConfigurationError ''API key is required'')
      else
        let config =
              (if BaseURL config = [] then
                 (if Provider config = ProviderOpenAI
                    then config\<lparr>BaseURL := ''https://api.openai.com/v1''\<rparr>
                  else if Provider config = ProviderDeepSeek
                    then config\<lparr>BaseURL := ''https://api.deepseek.com''\<rparr>
                  else config\<lparr>BaseURL := ''https://api.openai.com/v1''\<rparr>)
               else config);
            config =
              (if Timeout config = 0 then config\<lparr>Timeout := 30 * time_Second\<rparr> else config);
            config =
              (if DefaultModel config = [] then
                 (if Provider config = ProviderOpenAI
                    then config\<lparr>DefaultModel := ''gpt-3.5-turbo''\<rparr>
                  else if Provider config = ProviderDeepSeek
                    then config\<lparr>DefaultModel := ''deepseek-chat''\<rparr>
                  else config\<lparr>DefaultModel := ''gpt-3.5-turbo''\<rparr>)
               else config)
        in Inr \<lparr>clientConfig = config, clientHTTP = \<lparr>ClientTimeout = Timeout config\<rparr>\<rparr>)"

definition newQwenClient :: "Config \<Rightarrow> error + adapter" where
  "newQwenClient config =
     (if APIKey config = [] then Inl (ConfigurationError ''API key is required'')
      else
        let config =
              (if BaseURL config = []
                 then config\<lparr>BaseURL := ''https://dashscope-intl.aliyuncs.com/compatible-mode/v1''\<rparr>
               else config);
            config =
              (if Timeout config = 0 then config\<lparr>Timeout := 30 * time_Second\<rparr> else config);
            config =
              (if DefaultModel config = []
                 then config\<lparr>DefaultModel := ''qwen3-next-80b-a3b-instruct''\<rparr>
               else config)
        in Inr \<lparr>clientConfig = config, clientHTTP = \<lparr>ClientTimeout = Timeout config\<rparr>\<rparr>)"

definition newQwenClient_legacy :: "Config \<Rightarrow> error + adapter" where
  "newQwenClient_legacy config =
     (if APIKey config = [] then Inl (ConfigurationError ''API key is required'')
      else
        let config =
              (if BaseURL config = []
                 then config\<lparr>BaseURL := ''https://dashscope.aliyuncs.com/api/v1''\<rparr>
               else config);
            config =
              (if Timeout config = 0 then config\<lparr>Timeout := 30 * time_Second\<rparr> else config);
            config =
              (if DefaultModel config = [] then config\<lparr>DefaultModel := ''qwen-turbo''\<rparr>
               else config)
        in Inr \<lparr>clientConfig = config, clientHTTP = \<lparr>ClientTimeout = Timeout config\<rparr>\<rparr>)"

definition newAzureClient :: "Config \<Rightarrow> error + adapter" where
  "newAzureClient config =
     (if APIKey config = [] then Inl (ConfigurationError ''API key is required'')
      else if BaseURL config = []
        then Inl (ConfigurationError ''base URL is required for Azure OpenAI'')
      else if \<not> strings_Contains (BaseURL config) ''/deployments/''
        then Inl (ConfigurationError
               ''Azure OpenAI URL must include deployment name: /deployments/<deployment-name>'')
      else
        let config =
              (if Timeout config = 0 then config\<lparr>Timeout := 30 * time_Second\<rparr> else config);
            config =
              (if DefaultModel config = [] then config\<lparr>DefaultModel := ''gpt-35-turbo''\<rparr>
               else config)
        in Inr \<lparr>clientConfig = config, clientHTTP = \<lparr>ClientTimeout = Timeout config\<rparr>\<rparr>)"

definition newCohereClient :: "Config \<Rightarrow> error + adapter" where
  "newCohereClient config =
     (if APIKey config = [] then Inl (ConfigurationError ''API key is required'')
      else
        let config =
              (if BaseURL config = [] then config\<lparr>BaseURL := ''https://api.cohere.ai/v1''\<rparr>
               else config);
            config =
              (if Timeout config = 0 then config\<lparr>Timeout := 30 * time_Second\<rparr> else config);
            config =
              (if DefaultModel config = []
                 then config\<lparr>DefaultModel := ''embed-multilingual-v3.0''\<rparr>
               else config)
        in Inr \<lparr>clientConfig = config, clientHTTP = \<lparr>ClientTimeout = Timeout config\<rparr>\<rparr>)"

definition NewOpenAICompatibleClient :: "Config \<Rightarrow> error + Client" where
  "NewOpenAICompatibleClient config = map_sum id OpenAIClient (newOpenAIClient config)"

definition NewQwenClient :: "Config \<Rightarrow> error + Client" where
  "NewQwenClient config = map_sum id QwenClient (newQwenClient config)"

definition NewAzureClient :: "Config \<Rightarrow> error + Client" where
  "NewAzureClient config = map_sum id AzureClient (newAzureClient config)"

text \<open>
  \<^verbatim>\<open>NewClient\<close> as it stands in client.go: a switch over the provider tag with the cases
  \<^verbatim>\<open>ProviderOpenAI, ProviderDeepSeek\<close>, \<^verbatim>\<open>ProviderQwen\<close> and \<^verbatim>\<open>ProviderAzure\<close>, and a default
  that returns \<^verbatim>\<open>"unsupported LLM provider: %s"\<close>. There is no case for the Cohere tag.
\<close>

definition NewClient :: "Config \<Rightarrow> error + Client" where
  "NewClient config =
     (if Provider config = ProviderOpenAI \<or> Provider config = ProviderDeepSeek
        then NewOpenAICompatibleClient config
      else if Provider config = ProviderQwen then NewQwenClient config
      else if Provider config = ProviderAzure then NewAzureClient config
      else Inl (UnsupportedProviderError (Provider config)))"

definition GetConfig :: "Client \<Rightarrow> Config" where
  "GetConfig cl =
     (case cl of OpenAIClient c \<Rightarrow> clientConfig c | QwenClient c \<Rightarrow> clientConfig c
      | QwenLegacyClient c \<Rightarrow> clientConfig c | AzureClient c \<Rightarrow> clientConfig c
      | CohereClient c \<Rightarrow> clientConfig c)"

definition zeroConfig :: Config where
  "zeroConfig =
     \<lparr>Provider = [], APIKey = [], BaseURL = [], Timeout = 0, DefaultModel = [],
      DefaultTemperature = None, DefaultMaxTokens = None, DefaultTopP = None,
      DefaultTopK = None, ExtraConfig = Map.empty\<rparr>"

section \<open>Payload builders\<close>

text \<open>
  A payload is the \<^verbatim>\<open>map[string]interface{}\<close> handed to \<^verbatim>\<open>json.Marshal\<close>. The final loop
  \<^verbatim>\<open>for k, v := range request.ExtraParams { payload[k] = v }\<close> is the map addition
  \<open>payload ++ ExtraParams request\<close>, in which the right operand wins on a common key.
\<close>

text \<open>
  Each builder sets a sampling parameter by the same two-step test,
  \<^verbatim>\<open>if request.X != nil { payload[key] = *request.X } else if c.config.DefaultX != nil
  { payload[key] = *c.config.DefaultX }\<close>, which leaves the payload as it is when neither
  is set. \<open>setParam\<close> is that statement for a key of the payload; \<open>setNested\<close> is the same
  statement for a key of the nested \<^verbatim>\<open>parameters\<close> map of the earlier Qwen revision.
\<close>

definition setParam ::
  "string \<Rightarrow> ('a \<Rightarrow> json) \<Rightarrow> 'a option \<Rightarrow> 'a option \<Rightarrow> payload \<Rightarrow> payload" where
  "setParam key wrap requestValue configDefault payload =
     (case requestValue of
        Some v \<Rightarrow> payload(key \<mapsto> wrap v)
      | None \<Rightarrow>
         (case configDefault of
            Some v \<Rightarrow> payload(key \<mapsto> wrap v)
          | None \<Rightarrow> payload))"

definition setNested ::
  "string \<Rightarrow> ('a \<Rightarrow> json) \<Rightarrow> 'a option \<Rightarrow> 'a option \<Rightarrow> (string \<times> json) list
     \<Rightarrow> (string \<times> json) list" where
  "setNested key wrap requestValue configDefault parameters =
     (case requestValue of
        Some v \<Rightarrow> AList.update key (wrap v) parameters
      | None \<Rightarrow>
         (case configDefault of
            Some v \<Rightarrow> AList.update key (wrap v) parameters
          | None \<Rightarrow> parameters))"

definition openAIClient_getModel :: "adapter \<Rightarrow> string option \<Rightarrow> string" where
  "openAIClient_getModel c override =
     (case override of Some m \<Rightarrow> m | None \<Rightarrow> DefaultModel (clientConfig c))"

definition convertMessage :: "Message \<Rightarrow> json" where
  "convertMessage msg =
     JObject ([(''role'', JString (Role msg)), (''content'', JString (Content msg))]
              @ (if Name msg \<noteq> [] then [(''name'', JString (Name msg))] else []))"

definition openAIClient_convertMessages :: "adapter \<Rightarrow> Message list \<Rightarrow> json list" where
  "openAIClient_convertMessages c messages = map convertMessage messages"

definition openAIClient_buildPayload :: "adapter \<Rightarrow> Request \<Rightarrow> payload" where
  "openAIClient_buildPayload c request =
     (let payload = [''model'' \<mapsto> JString (openAIClient_getModel c (Model request)),
                     ''messages'' \<mapsto> JArray (openAIClient_convertMessages c (ReqMessages request)),
                     ''stream'' \<mapsto> JBool (Stream request)];
          payload = setParam ''temperature'' JFloat (Temperature request)
                  (DefaultTemperature (clientConfig c)) payload;
          payload = setParam ''max_tokens'' JInt (MaxTokens request)
                  (DefaultMaxTokens (clientConfig c)) payload;
          payload = setParam ''top_p'' JFloat (TopP request)
                  (DefaultTopP (clientConfig c)) payload
      in payload ++ ExtraParams request)"

text \<open>The Azure adapter: the same builder without the \<^verbatim>\<open>"model"\<close> entry.\<close>

definition azureClient_convertMessages :: "adapter \<Rightarrow> Message list \<Rightarrow> json list" where
  "azureClient_convertMessages c messages = map convertMessage messages"

definition azureClient_buildPayload :: "adapter \<Rightarrow> Request \<Rightarrow> payload" where
  "azureClient_buildPayload c request =
     (let payload = [''messages'' \<mapsto> JArray (azureClient_convertMessages c (ReqMessages request)),
                     ''stream'' \<mapsto> JBool (Stream request)];
          payload = setParam ''temperature'' JFloat (Temperature request)
                  (DefaultTemperature (clientConfig c)) payload;
          payload = setParam ''max_tokens'' JInt (MaxTokens request)
                  (DefaultMaxTokens (clientConfig c)) payload;
          payload = setParam ''top_p'' JFloat (TopP request)
                  (DefaultTopP (clientConfig c)) payload
      in payload ++ ExtraParams request)"

text \<open>The Qwen adapter, both revisions: \<^verbatim>\<open>getModel\<close> and \<^verbatim>\<open>getMaxTokens\<close> are the same.\<close>

definition qwenClient_getModel :: "adapter \<Rightarrow> string option \<Rightarrow> string" where
  "qwenClient_getModel c override =
     (case override of Some m \<Rightarrow> m | None \<Rightarrow> DefaultModel (clientConfig c))"

definition qwenClient_getMaxTokens :: "adapter \<Rightarrow> int option \<Rightarrow> int" where
  "qwenClient_getMaxTokens c override =
     (case override of
        Some m \<Rightarrow> m
      | None \<Rightarrow> (case DefaultMaxTokens (clientConfig c) of Some m \<Rightarrow> m | None \<Rightarrow> 1500))"

text \<open>
  The OpenAI-compatible revision. \<^verbatim>\<open>messages\<close> is declared \<^verbatim>\<open>var messages []map[...]\<close> and
  grown by \<^verbatim>\<open>append\<close>, so with no message it stays \<^verbatim>\<open>nil\<close>, which marshals to \<^verbatim>\<open>null\<close>.
\<close>

definition qwenClient_buildPayload :: "adapter \<Rightarrow> Request \<Rightarrow> payload" where
  "qwenClient_buildPayload c request =
     (let messages =
            map (\<lambda>msg. JObject [(''role'', JString (Role msg)),
                                  (''content'', JString (Content msg))])
                (ReqMessages request);
          payload = [''model'' \<mapsto> JString (qwenClient_getModel c (Model request)),
                     ''messages'' \<mapsto> (if messages = [] then JNull else JArray messages),
                     ''max_tokens'' \<mapsto> JInt (qwenClient_getMaxTokens c (MaxTokens request))];
          payload = setParam ''temperature'' JFloat (Temperature request)
                  (DefaultTemperature (clientConfig c)) payload;
          payload = setParam ''top_p'' JFloat (TopP request)
                  (DefaultTopP (clientConfig c)) payload;
          payload = setParam ''top_k'' JInt (TopK request)
                  (DefaultTopK (clientConfig c)) payload
      in payload ++ ExtraParams request)"

text \<open>
  The earlier revision: one prompt string, and the sampling parameters in the nested map
  \<^verbatim>\<open>payload["parameters"]\<close>. The source creates that map inside the payload literal and then
  stores into it through the payload; the model fills the association list first and puts
  it into the payload, which is the same map. This builder does not read \<^verbatim>\<open>ExtraParams\<close>.
\<close>

fun qwenClient_buildPromptFromMessages :: "Message list \<Rightarrow> string \<Rightarrow> string" where
  "qwenClient_buildPromptFromMessages [] prompt = prompt @ ''Assistant:''"
| "qwenClient_buildPromptFromMessages (msg # messages) prompt =
     qwenClient_buildPromptFromMessages messages
       (if Role msg = RoleSystem then prompt @ ''System: '' @ Content msg @ [CHR 10, CHR 10]
        else if Role msg = RoleUser then prompt @ ''User: '' @ Content msg @ [CHR 10, CHR 10]
        else if Role msg = RoleAssistant
          then prompt @ ''Assistant: '' @ Content msg @ [CHR 10, CHR 10]
        else prompt)"

definition qwenLegacy_buildPayload :: "adapter \<Rightarrow> Request \<Rightarrow> payload" where
  "qwenLegacy_buildPayload c request =
     (let prompt =
            (if length (ReqMessages request) > 0
               then qwenClient_buildPromptFromMessages (ReqMessages request) []
             else []);
          parameters = [(''max_tokens'', JInt (qwenClient_getMaxTokens c (MaxTokens request)))];
          parameters = setNested ''temperature'' JFloat (Temperature request)
                  (DefaultTemperature (clientConfig c)) parameters;
          parameters = setNested ''top_p'' JFloat (TopP request)
                  (DefaultTopP (clientConfig c)) parameters;
          parameters = setNested ''top_k'' JInt (TopK request)
                  (DefaultTopK (clientConfig c)) parameters
      in [''model'' \<mapsto> JString (qwenClient_getModel c (Model request)),
          ''input'' \<mapsto> JObject [(''prompt'', JString prompt)],
          ''parameters'' \<mapsto> JObject parameters])"

text \<open>
  The Cohere adapter. The loop runs over the messages with their index \<open>i\<close>; \<open>n\<close> is
  \<^verbatim>\<open>len(request.Messages)\<close>. A system message is skipped; a user message at the last index
  becomes \<^verbatim>\<open>message\<close>, any other user message a \<^verbatim>\<open>USER\<close> entry of the chat history; an
  assistant message a \<^verbatim>\<open>CHATBOT\<close> entry; a message of any other role is skipped.
\<close>

definition cohereTurn :: "string \<Rightarrow> Message \<Rightarrow> json" where
  "cohereTurn role msg = JObject [(''role'', JString role), (''message'', JString (Content msg))]"

fun cohereMessages ::
  "nat \<Rightarrow> nat \<Rightarrow> Message list \<Rightarrow> string \<Rightarrow> json list \<Rightarrow> string \<times> json list" where
  "cohereMessages n i [] message chatHistory = (message, chatHistory)"
| "cohereMessages n i (msg # messages) message chatHistory =
     (if Role msg = RoleSystem then cohereMessages n (i + 1) messages message chatHistory
      else if Role msg = RoleUser then
        (if int i = int n - 1
           then cohereMessages n (i + 1) messages (Content msg) chatHistory
         else cohereMessages n (i + 1) messages message
                (chatHistory @ [cohereTurn ''USER'' msg]))
      else if Role msg = RoleAssistant
        then cohereMessages n (i + 1) messages message (chatHistory @ [cohereTurn ''CHATBOT'' msg])
      else cohereMessages n (i + 1) messages message chatHistory)"

definition cohereClient_getModel :: "adapter \<Rightarrow> string option \<Rightarrow> string" where
  "cohereClient_getModel c override =
     (case override of
        Some m \<Rightarrow> m
      | None \<Rightarrow>
         (if DefaultModel (clientConfig c) = []
             \<or> DefaultModel (clientConfig c) = ''embed-multilingual-v3.0''
            then ''command-r-plus''
          else DefaultModel (clientConfig c)))"

definition cohereClient_buildPayload :: "adapter \<Rightarrow> Request \<Rightarrow> payload" where
  "cohereClient_buildPayload c request =
     (let (message, chatHistory) =
            cohereMessages (length (ReqMessages request)) 0 (ReqMessages request) [] [];
          payload = [''message'' \<mapsto> JString message,
                     ''model'' \<mapsto> JString (cohereClient_getModel c (Model request))];
          payload =
            (if length chatHistory > 0 then payload(''chat_history'' \<mapsto> JArray chatHistory)
             else payload);
          payload = setParam ''temperature'' JFloat (Temperature request)
                  (DefaultTemperature (clientConfig c)) payload;
          payload = setParam ''max_tokens'' JInt (MaxTokens request)
                  (DefaultMaxTokens (clientConfig c)) payload;
          payload = setParam ''p'' JFloat (TopP request)
                  (DefaultTopP (clientConfig c)) payload;
          payload = setParam ''k'' JInt (TopK request)
                  (DefaultTopK (clientConfig c)) payload
      in payload ++ ExtraParams request)"

section \<open>Generate, GenerateWithHistory and CreateEmbedding\<close>

text \<open>
  Every \<^verbatim>\<open>Generate\<close> and the Cohere \<^verbatim>\<open>CreateEmbedding\<close> run the same steps up to the status
  check: marshal the payload, create the POST request, set the headers, hand the request to
  the HTTP client, read the body, reject a status outside 200..299. They differ in the URL,
  the headers, the API name of the status error and, for embeddings, the word
  \<^verbatim>\<open>embedding\<close> in the messages (\<open>what\<close>). \<open>roundTrip\<close> is these steps. Its state is the list
  of requests handed to the transport so far: a call that returns before
  \<^verbatim>\<open>httpClient.Do\<close> leaves it as it was.
\<close>

definition roundTrip ::
  "env \<Rightarrow> context \<Rightarrow> string \<Rightarrow> (string \<times> string) list \<Rightarrow> string \<Rightarrow> string \<Rightarrow> payload
     \<Rightarrow> HTTPRequest list \<Rightarrow> (error + string) \<times> HTTPRequest list" where
  "roundTrip env ctx url headers what api payload sent =
     (case json_Marshal env payload of
        None \<Rightarrow> (Inl (MarshalError (''failed to marshal '' @ what @ ''request'')), sent)
      | Some jsonPayload \<Rightarrow>
         (if \<not> newRequestOK env ctx url
            then (Inl (TransportError (''failed to create '' @ what @ ''request'')), sent)
          else
            (let req = \<lparr>ReqCtx = ctx, Method = ''POST'', URL = url, Header = headers,
                        Body = jsonPayload\<rparr>
             in case httpDo env sent req of
                  None \<Rightarrow>
                    (Inl (TransportError (''failed to send '' @ what @ ''request'')), sent @ [req])
                | Some resp \<Rightarrow>
                   (case RespBody resp of
                      None \<Rightarrow>
                        (Inl (TransportError (''failed to read '' @ what @ ''response'')),
                         sent @ [req])
                    | Some body \<Rightarrow>
                       (if StatusCode resp < 200 \<or> StatusCode resp \<ge> 300
                          then (Inl (RemoteAPIError api (StatusCode resp) body), sent @ [req])
                        else (Inr body, sent @ [req]))))))"

text \<open>
  The headers are given as the request carries them: \<^verbatim>\<open>req.Header.Set\<close> stores a header under
  its canonical name (first letter and every letter after a hyphen in upper case, the rest
  in lower case), so the source's \<^verbatim>\<open>"api-key"\<close> is \<^verbatim>\<open>Api-Key\<close> and its \<^verbatim>\<open>"X-DashScope-SSE"\<close> is
  \<^verbatim>\<open>X-Dashscope-Sse\<close> in the request; \<^verbatim>\<open>Content-Type\<close> and \<^verbatim>\<open>Authorization\<close> are canonical as
  written.
\<close>

definition bearerHeaders :: "adapter \<Rightarrow> (string \<times> string) list" where
  "bearerHeaders c =
     [(''Content-Type'', ''application/json''),
      (''Authorization'', ''Bearer '' @ APIKey (clientConfig c))]"

definition openAIClient_Generate ::
  "env \<Rightarrow> adapter \<Rightarrow> context \<Rightarrow> Request \<Rightarrow> HTTPRequest list
     \<Rightarrow> (error + Response) \<times> HTTPRequest list" where
  "openAIClient_Generate env c ctx request sent =
     (case roundTrip env ctx (BaseURL (clientConfig c) @ ''/chat/completions'')
             (bearerHeaders c) [] ''LLM API error'' (openAIClient_buildPayload c request) sent of
        (Inl e, sent') \<Rightarrow> (Inl e, sent')
      | (Inr body, sent') \<Rightarrow>
         (case unmarshalChat env body of
            None \<Rightarrow> (Inl (DecodeError ''failed to unmarshal response''), sent')
          | Some apiResp \<Rightarrow>
             (if length (Choices apiResp) = 0
                then (Inl (EmptyResultError ''no choices in LLM response''), sent')
              else
                (Inr \<lparr>RespContent = MessageContent (Choices apiResp ! 0),
                      RespRole = MessageRole (Choices apiResp ! 0),
                      TokensUsed = TotalTokens apiResp,
                      ResponseTime = since env,
                      FinishReason = ChoiceFinishReason (Choices apiResp ! 0),
                      RespStream = None\<rparr>, sent'))))"

definition azureClient_Generate ::
  "env \<Rightarrow> adapter \<Rightarrow> context \<Rightarrow> Request \<Rightarrow> HTTPRequest list
     \<Rightarrow> (error + Response) \<times> HTTPRequest list" where
  "azureClient_Generate env c ctx request sent =
     (case roundTrip env ctx
             (BaseURL (clientConfig c) @ ''/chat/completions?api-version=2023-12-01-preview'')
             [(''Content-Type'', ''application/json''), (''Api-Key'', APIKey (clientConfig c))]
             [] ''Azure OpenAI API error'' (azureClient_buildPayload c request) sent of
        (Inl e, sent') \<Rightarrow> (Inl e, sent')
      | (Inr body, sent') \<Rightarrow>
         (case unmarshalChat env body of
            None \<Rightarrow> (Inl (DecodeError ''failed to unmarshal response''), sent')
          | Some apiResp \<Rightarrow>
             (if length (Choices apiResp) = 0
                then (Inl (EmptyResultError ''no choices in Azure OpenAI response''), sent')
              else
                (Inr \<lparr>RespContent = MessageContent (Choices apiResp ! 0),
                      RespRole = MessageRole (Choices apiResp ! 0),
                      TokensUsed = TotalTokens apiResp,
                      ResponseTime = since env,
                      FinishReason = ChoiceFinishReason (Choices apiResp ! 0),
                      RespStream = None\<rparr>, sent'))))"

definition qwenHeaders :: "adapter \<Rightarrow> (string \<times> string) list" where
  "qwenHeaders c =
     [(''Content-Type'', ''application/json''),
      (''Authorization'', ''Bearer '' @ APIKey (clientConfig c)),
      (''X-Dashscope-Sse'', ''disable'')]"

definition qwenClient_Generate ::
  "env \<Rightarrow> adapter \<Rightarrow> context \<Rightarrow> Request \<Rightarrow> HTTPRequest list
     \<Rightarrow> (error + Response) \<times> HTTPRequest list" where
  "qwenClient_Generate env c ctx request sent =
     (case roundTrip env ctx (BaseURL (clientConfig c) @ ''/chat/completions'')
             (qwenHeaders c) [] ''Qwen API error'' (qwenClient_buildPayload c request) sent of
        (Inl e, sent') \<Rightarrow> (Inl e, sent')
      | (Inr body, sent') \<Rightarrow>
         (case unmarshalChat env body of
            None \<Rightarrow> (Inl (DecodeError ''failed to unmarshal response''), sent')
          | Some apiResp \<Rightarrow>
             (if length (Choices apiResp) = 0
                then (Inl (EmptyResultError ''no choices in response''), sent')
              else
                (Inr \<lparr>RespContent = MessageContent (Choices apiResp ! 0),
                      RespRole = RoleAssistant,
                      TokensUsed = TotalTokens apiResp,
                      ResponseTime = since env,
                      FinishReason = [],
                      RespStream = None\<rparr>, sent'))))"

definition qwenLegacy_Generate ::
  "env \<Rightarrow> adapter \<Rightarrow> context \<Rightarrow> Request \<Rightarrow> HTTPRequest list
     \<Rightarrow> (error + Response) \<times> HTTPRequest list" where
  "qwenLegacy_Generate env c ctx request sent =
     (case roundTrip env ctx
             (BaseURL (clientConfig c) @ ''/services/aigc/text-generation/generation'')
             (qwenHeaders c) [] ''Qwen API error'' (qwenLegacy_buildPayload c request) sent of
        (Inl e, sent') \<Rightarrow> (Inl e, sent')
      | (Inr body, sent') \<Rightarrow>
         (case unmarshalQwen env body of
            None \<Rightarrow> (Inl (DecodeError ''failed to unmarshal response''), sent')
          | Some apiResp \<Rightarrow>
             (Inr \<lparr>RespContent = OutputText apiResp,
                   RespRole = RoleAssistant,
                   TokensUsed = QwenTotalTokens apiResp,
                   ResponseTime = since env,
                   FinishReason = [],
                   RespStream = None\<rparr>, sent')))"

definition cohereClient_Generate ::
  "env \<Rightarrow> adapter \<Rightarrow> context \<Rightarrow> Request \<Rightarrow> HTTPRequest list
     \<Rightarrow> (error + Response) \<times> HTTPRequest list" where
  "cohereClient_Generate env c ctx request sent =
     (case roundTrip env ctx (BaseURL (clientConfig c) @ ''/chat'')
             (bearerHeaders c) [] ''Cohere API error'' (cohereClient_buildPayload c request) sent of
        (Inl e, sent') \<Rightarrow> (Inl e, sent')
      | (Inr body, sent') \<Rightarrow>
         (case unmarshalCohereChat env body of
            None \<Rightarrow> (Inl (DecodeError ''failed to unmarshal response''), sent')
          | Some apiResp \<Rightarrow>
             (Inr \<lparr>RespContent = Text apiResp,
                   RespRole = RoleAssistant,
                   TokensUsed = wrap64 (ChatInputTokens apiResp + ChatOutputTokens apiResp),
                   ResponseTime = since env,
                   FinishReason = CohereFinishReason apiResp,
                   RespStream = None\<rparr>, sent')))"

text \<open>The interface method \<^verbatim>\<open>Client.Generate\<close>: dynamic dispatch on the adapter.\<close>

definition Client_Generate ::
  "env \<Rightarrow> Client \<Rightarrow> context \<Rightarrow> Request \<Rightarrow> HTTPRequest list
     \<Rightarrow> (error + Response) \<times> HTTPRequest list" where
  "Client_Generate env cl =
     (case cl of
        OpenAIClient c \<Rightarrow> openAIClient_Generate env c
      | QwenClient c \<Rightarrow> qwenClient_Generate env c
      | QwenLegacyClient c \<Rightarrow> qwenLegacy_Generate env c
      | AzureClient c \<Rightarrow> azureClient_Generate env c
      | CohereClient c \<Rightarrow> cohereClient_Generate env c)"

text \<open>
  \<^verbatim>\<open>GenerateWithHistory\<close> has the same body in every adapter: build the chat request from the
  history's messages and the user message, add the system message when the prompt is not
  empty, call the adapter's own \<^verbatim>\<open>Generate\<close>.
\<close>

definition openAIClient_GenerateWithHistory ::
  "env \<Rightarrow> adapter \<Rightarrow> context \<Rightarrow> ChatHistory \<Rightarrow> string \<Rightarrow> string \<Rightarrow> HTTPRequest list
     \<Rightarrow> (error + Response) \<times> HTTPRequest list" where
  "openAIClient_GenerateWithHistory env c ctx history userMessage systemPrompt sent =
     (let request = BuildChatRequest (GetMessages history) userMessage;
          request = (if systemPrompt \<noteq> [] then AddSystemMessage systemPrompt request
                     else request)
      in openAIClient_Generate env c ctx request sent)"

definition qwenClient_GenerateWithHistory ::
  "env \<Rightarrow> adapter \<Rightarrow> context \<Rightarrow> ChatHistory \<Rightarrow> string \<Rightarrow> string \<Rightarrow> HTTPRequest list
     \<Rightarrow> (error + Response) \<times> HTTPRequest list" where
  "qwenClient_GenerateWithHistory env c ctx history userMessage systemPrompt sent =
     (let request = BuildChatRequest (GetMessages history) userMessage;
          request = (if systemPrompt \<noteq> [] then AddSystemMessage systemPrompt request
                     else request)
      in qwenClient_Generate env c ctx request sent)"

definition qwenLegacy_GenerateWithHistory ::
  "env \<Rightarrow> adapter \<Rightarrow> context \<Rightarrow> ChatHistory \<Rightarrow> string \<Rightarrow> string \<Rightarrow> HTTPRequest list
     \<Rightarrow> (error + Response) \<times> HTTPRequest list" where
  "qwenLegacy_GenerateWithHistory env c ctx history userMessage systemPrompt sent =
     (let request = BuildChatRequest (GetMessages history) userMessage;
          request = (if systemPrompt \<noteq> [] then AddSystemMessage systemPrompt request
                     else request)
      in qwenLegacy_Generate env c ctx request sent)"

definition azureClient_GenerateWithHistory ::
  "env \<Rightarrow> adapter \<Rightarrow> context \<Rightarrow> ChatHistory \<Rightarrow> string \<Rightarrow> string \<Rightarrow> HTTPRequest list
     \<Rightarrow> (error + Response) \<times> HTTPRequest list" where
  "azureClient_GenerateWithHistory env c ctx history userMessage systemPrompt sent =
     (let request = BuildChatRequest (GetMessages history) userMessage;
          request = (if systemPrompt \<noteq> [] then AddSystemMessage systemPrompt request
                     else request)
      in azureClient_Generate env c ctx request sent)"

definition cohereClient_GenerateWithHistory ::
  "env \<Rightarrow> adapter \<Rightarrow> context \<Rightarrow> ChatHistory \<Rightarrow> string \<Rightarrow> string \<Rightarrow> HTTPRequest list
     \<Rightarrow> (error + Response) \<times> HTTPRequest list" where
  "cohereClient_GenerateWithHistory env c ctx history userMessage systemPrompt sent =
     (let request = BuildChatRequest (GetMessages history) userMessage;
          request = (if systemPrompt \<noteq> [] then AddSystemMessage systemPrompt request
                     else request)
      in cohereClient_Generate env c ctx request sent)"

definition Client_GenerateWithHistory ::
  "env \<Rightarrow> Client \<Rightarrow> context \<Rightarrow> ChatHistory \<Rightarrow> string \<Rightarrow> string \<Rightarrow> HTTPRequest list
     \<Rightarrow> (error + Response) \<times> HTTPRequest list" where
  "Client_GenerateWithHistory env cl =
     (case cl of
        OpenAIClient c \<Rightarrow> openAIClient_GenerateWithHistory env c
      | QwenClient c \<Rightarrow> qwenClient_GenerateWithHistory env c
      | QwenLegacyClient c \<Rightarrow> qwenLegacy_GenerateWithHistory env c
      | AzureClient c \<Rightarrow> azureClient_GenerateWithHistory env c
      | CohereClient c \<Rightarrow> cohereClient_GenerateWithHistory env c)"

text \<open>The package-level convenience functions of client.go.\<close>

definition GenerateSimple ::
  "env \<Rightarrow> context \<Rightarrow> Client \<Rightarrow> string \<Rightarrow> HTTPRequest list
     \<Rightarrow> (error + Response) \<times> HTTPRequest list" where
  "GenerateSimple env ctx client prompt sent =
     (let req = BuildSimpleRequest prompt in Client_Generate env client ctx req sent)"


definition GenerateWithSystemPrompt ::
  "env \<Rightarrow> context \<Rightarrow> Client \<Rightarrow> string \<Rightarrow> string \<Rightarrow> HTTPRequest list
     \<Rightarrow> (error + Response) \<times> HTTPRequest list" where
  "GenerateWithSystemPrompt env ctx client systemPrompt userMessage sent =
     (let req = BuildRequestWithSystemPrompt systemPrompt userMessage
      in Client_Generate env client ctx req sent)"

text \<open>\<^verbatim>\<open>CreateEmbedding\<close> of the Azure adapter: the stub, which returns at once.\<close>

definition azureClient_CreateEmbedding ::
  "env \<Rightarrow> adapter \<Rightarrow> context \<Rightarrow> EmbeddingRequest \<Rightarrow> HTTPRequest list
     \<Rightarrow> (error + EmbeddingResponse) \<times> HTTPRequest list" where
  "azureClient_CreateEmbedding env c ctx request sent =
     (Inl (UnsupportedOperationError ''embeddings not supported for Azure provider yet''), sent)"

text \<open>
  \<^verbatim>\<open>CreateEmbedding\<close> of the Cohere adapter. (The model does not tell a \<^verbatim>\<open>nil\<close> input slice
  from an empty one; the first marshals to \<^verbatim>\<open>null\<close>, the second to \<^verbatim>\<open>[]\<close>.)
\<close>

definition cohereEmbeddingModel :: "adapter \<Rightarrow> EmbeddingRequest \<Rightarrow> string" where
  "cohereEmbeddingModel c request =
     (case EmbModel request of
        Some m \<Rightarrow> m
      | None \<Rightarrow>
         (if DefaultModel (clientConfig c) \<noteq> [] then DefaultModel (clientConfig c)
          else ''embed-multilingual-v3.0''))"

definition cohereEmbedPayload :: "adapter \<Rightarrow> EmbeddingRequest \<Rightarrow> payload" where
  "cohereEmbedPayload c request =
     [''model'' \<mapsto> JString (cohereEmbeddingModel c request),
      ''texts'' \<mapsto> JArray (map JString (Input request)),
      ''input_type'' \<mapsto> JString ''search_document'']"

definition cohereClient_CreateEmbedding ::
  "env \<Rightarrow> adapter \<Rightarrow> context \<Rightarrow> EmbeddingRequest \<Rightarrow> HTTPRequest list
     \<Rightarrow> (error + EmbeddingResponse) \<times> HTTPRequest list" where
  "cohereClient_CreateEmbedding env c ctx request sent =
     (let embeddingModel = cohereEmbeddingModel c request;
          payload = cohereEmbedPayload c request
      in case roundTrip env ctx (BaseURL (clientConfig c) @ ''/embed'') (bearerHeaders c)
                ''embedding '' ''Cohere Embedding API error'' payload sent of
           (Inl e, sent') \<Rightarrow> (Inl e, sent')
         | (Inr body, sent') \<Rightarrow>
            (case unmarshalCohereEmbed env body of
               None \<Rightarrow> (Inl (DecodeError ''failed to unmarshal embedding response''), sent')
             | Some apiResp \<Rightarrow>
                (if length (RespEmbeddings apiResp) = 0
                   then (Inl (EmptyResultError ''no embeddings in response''), sent')
                 else
                   (Inr \<lparr>Embeddings = RespEmbeddings apiResp,
                         EmbRespModel = embeddingModel,
                         EmbTokensUsed = EmbedInputTokens apiResp,
                         EmbResponseTime = since env\<rparr>, sent'))))"

text \<open>
  Modelled from the spec: \<^verbatim>\<open>qwenClient.CreateEmbedding\<close>, which neither revision of the Qwen
  adapter in the sources contains. The spec: \<^verbatim>\<open>CreateEmbedding\<close> "fails with
  UnsupportedOperationError ("not supported yet") for Qwen and Azure adapters - those are
  declared stubs, not implemented mappings", and it "fails immediately with
  UnsupportedOperationError, without any network call being attempted".
\<close>

definition qwenClient_CreateEmbedding ::
  "env \<Rightarrow> adapter \<Rightarrow> context \<Rightarrow> EmbeddingRequest \<Rightarrow> HTTPRequest list
     \<Rightarrow> (error + EmbeddingResponse) \<times> HTTPRequest list" where
  "qwenClient_CreateEmbedding env c ctx request sent =
     (Inl (UnsupportedOperationError ''not supported yet''), sent)"

text \<open>
  Modelled from the spec: \<^verbatim>\<open>openAIClient.CreateEmbedding\<close>, which openai_client.go as it stands
  does not contain. The spec's words:
  \<^item> "\<^verbatim>\<open>CreateEmbedding\<close> ...: supported for OpenAI-compatible and Cohere";
  \<^item> "OpenAI-compatible: input array sent as \<^verbatim>\<open>input\<close>, parsed \<^verbatim>\<open>data[].embedding\<close>
    reordered/validated by index, \<^verbatim>\<open>usage.total_tokens\<close>";
  \<^item> the request's model is an "optional string override" of the configured default model;
  \<^item> the authorization header of the OpenAI-compatible adapter is \<^verbatim>\<open>Authorization: Bearer <key>\<close>;
  \<^item> each operation is one synchronous HTTP POST; "all failures are surfaced immediately to
    the caller as a tagged error (network failure, non-2xx status with body text attached,
    JSON decode failure, empty-result failure)";
  \<^item> "Invariant: \<^verbatim>\<open>len(embeddings) == len(input)\<close> on success", and "for a successful embedding
    call, \<^verbatim>\<open>len(response.Embeddings) == len(request.Input)\<close>, with each vector non-empty".

  Hence: the steps up to the status check are those of every other call (\<open>roundTrip\<close>); a body
  that does not decode is a \<open>DecodeError\<close>; a response without data is an \<open>EmptyResultError\<close>;
  the data are valid when there is one datum for each input, the indices are the positions
  \<open>0, ..., len(input) - 1\<close>, each exactly once, and no vector is empty; data that are not
  valid do not have the expected shape, which is a \<open>DecodeError\<close>; valid data are returned
  in the order of their indices.

  What the spec leaves open is a parameter of the model (\<open>embedUnspecified\<close>): the path of the
  endpoint below the base URL and the texts of the error messages.
\<close>

record embedUnspecified =
  EmbedPath :: string
  EmbedWhat :: string
  EmbedAPIName :: string
  EmbedDecodeText :: string
  EmbedEmptyText :: string
  EmbedInvalidText :: string

definition openAIEmbedPayload :: "adapter \<Rightarrow> EmbeddingRequest \<Rightarrow> payload" where
  "openAIEmbedPayload c request =
     [''model'' \<mapsto> JString (openAIClient_getModel c (EmbModel request)),
      ''input'' \<mapsto> JArray (map JString (Input request))]"

definition validIndices :: "OpenAIEmbedItem list \<Rightarrow> nat \<Rightarrow> bool" where
  "validIndices items n =
     (length items = n
      \<and> list_all (\<lambda>item. 0 \<le> ItemIndex item \<and> ItemIndex item < int n) items
      \<and> distinct (map ItemIndex items)
      \<and> list_all (\<lambda>item. ItemEmbedding item \<noteq> []) items)"

definition orderByIndex :: "OpenAIEmbedItem list \<Rightarrow> OpenAIEmbedItem list" where
  "orderByIndex items = sort_key ItemIndex items"

definition openAIClient_CreateEmbedding ::
  "embedUnspecified \<Rightarrow> env \<Rightarrow> adapter \<Rightarrow> context \<Rightarrow> EmbeddingRequest \<Rightarrow> HTTPRequest list
     \<Rightarrow> (error + EmbeddingResponse) \<times> HTTPRequest list" where
  "openAIClient_CreateEmbedding unspec env c ctx request sent =
     (case roundTrip env ctx (BaseURL (clientConfig c) @ EmbedPath unspec) (bearerHeaders c)
             (EmbedWhat unspec) (EmbedAPIName unspec) (openAIEmbedPayload c request) sent of
        (Inl e, sent') \<Rightarrow> (Inl e, sent')
      | (Inr body, sent') \<Rightarrow>
         (case unmarshalOpenAIEmbed env body of
            None \<Rightarrow> (Inl (DecodeError (EmbedDecodeText unspec)), sent')
          | Some apiResp \<Rightarrow>
             (if length (Data apiResp) = 0
                then (Inl (EmptyResultError (EmbedEmptyText unspec)), sent')
              else if \<not> validIndices (Data apiResp) (length (Input request))
                then (Inl (DecodeError (EmbedInvalidText unspec)), sent')
              else
                (Inr \<lparr>Embeddings = map ItemEmbedding (orderByIndex (Data apiResp)),
                      EmbRespModel = openAIClient_getModel c (EmbModel request),
                      EmbTokensUsed = EmbedTotalTokens apiResp,
                      EmbResponseTime = since env\<rparr>, sent'))))"

text \<open>The interface method \<^verbatim>\<open>Client.CreateEmbedding\<close>.\<close>

definition Client_CreateEmbedding ::
  "embedUnspecified \<Rightarrow> env \<Rightarrow> Client \<Rightarrow> context \<Rightarrow> EmbeddingRequest \<Rightarrow> HTTPRequest list
     \<Rightarrow> (error + EmbeddingResponse) \<times> HTTPRequest list" where
  "Client_CreateEmbedding unspec env cl =
     (case cl of
        OpenAIClient c \<Rightarrow> openAIClient_CreateEmbedding unspec env c
      | QwenClient c \<Rightarrow> qwenClient_CreateEmbedding env c
      | QwenLegacyClient c \<Rightarrow> qwenClient_CreateEmbedding env c
      | AzureClient c \<Rightarrow> azureClient_CreateEmbedding env c
      | CohereClient c \<Rightarrow> cohereClient_CreateEmbedding env c)"

text \<open>
  A transport for concrete runs: marshalling and request creation succeed, every request
  is answered with the given status and the body \<^verbatim>\<open>body\<close>, and the body decodes to the given
  structures.
\<close>

definition stubEnv ::
  "int \<Rightarrow> ChatAPIResp option \<Rightarrow> CohereEmbedResp option \<Rightarrow> OpenAIEmbedResp option \<Rightarrow> env" where
  "stubEnv status chat cohereEmbed openAIEmbed =
     \<lparr>json_Marshal = (\<lambda>p. Some ''{}''),
      newRequestOK = (\<lambda>ctx u. True),
      httpDo = (\<lambda>sent req. Some \<lparr>StatusCode = status, RespBody = Some ''body''\<rparr>),
      unmarshalChat = (\<lambda>b. chat),
      unmarshalQwen = (\<lambda>b. None),
      unmarshalCohereChat = (\<lambda>b. None),
      unmarshalCohereEmbed = (\<lambda>b. cohereEmbed),
      unmarshalOpenAIEmbed = (\<lambda>b. openAIEmbed),
      since = 0,
      growslice = (\<lambda>old needed. 2 * needed)\<rparr>"

definition stubUnspecified :: embedUnspecified where
  "stubUnspecified =
     \<lparr>EmbedPath = ''/embeddings'', EmbedWhat = [], EmbedAPIName = [], EmbedDecodeText = [],
      EmbedEmptyText = [], EmbedInvalidText = []\<rparr>"

definition stubAdapter :: adapter where
  "stubAdapter =
     \<lparr>clientConfig = zeroConfig\<lparr>APIKey := ''key''\<rparr>, clientHTTP = \<lparr>ClientTimeout = 0\<rparr>\<rparr>"

section \<open>The calls on an explicit store\<close>

text \<open>
  A Go slice is a header (array, offset, length, capacity) over a backing array that other
  slices may share, and the adapters' methods have pointer receivers. To state what a call
  leaves untouched, the store holds the backing arrays of \<^verbatim>\<open>[]Message\<close> values and the
  adapter structs, both by address, and the list of requests handed to the transport.
  \<^item> \<open>readSlice\<close> reads the elements a header denotes;
  \<^item> \<open>makeSlice\<close> is \<^verbatim>\<open>make([]Message, 0, n)\<close>: a new zeroed array of \<open>n\<close> elements;
  \<^item> \<open>literalSlice\<close> is a composite literal \<^verbatim>\<open>[]Message{...}\<close>: a new array holding the elements;
  \<^item> \<open>appendSlice\<close> is \<^verbatim>\<open>append(s, xs...)\<close>: when the elements fit into the capacity they are
    written into the backing array of \<open>s\<close> behind its length, otherwise a new array of at
    least the needed length receives the old elements and the new ones.
\<close>

record slice =
  Arr :: nat
  Off :: nat
  Len :: nat
  Cap :: nat

record store =
  Arrays :: "Message list list"
  Clients :: "Client list"
  Sent :: "HTTPRequest list"

definition zeroMessage :: Message where
  "zeroMessage = \<lparr>Role = [], Content = [], Name = []\<rparr>"

definition nilSlice :: slice where
  "nilSlice = \<lparr>Arr = 0, Off = 0, Len = 0, Cap = 0\<rparr>"

text \<open>A header is valid in a store when its window lies inside an allocated array; a header
  of capacity zero, such as that of a \<^verbatim>\<open>nil\<close> slice, denotes no element and is always valid.\<close>

definition validSlice :: "store \<Rightarrow> slice \<Rightarrow> bool" where
  "validSlice st s =
     (Len s \<le> Cap s
      \<and> (Cap s = 0
         \<or> (Arr s < length (Arrays st) \<and> Off s + Cap s \<le> length (Arrays st ! Arr s))))"

definition readSlice :: "store \<Rightarrow> slice \<Rightarrow> Message list" where
  "readSlice st s = take (Len s) (drop (Off s) (Arrays st ! Arr s))"

definition makeSlice :: "nat \<Rightarrow> store \<Rightarrow> slice \<times> store" where
  "makeSlice n st =
     (\<lparr>Arr = length (Arrays st), Off = 0, Len = 0, Cap = n\<rparr>,
      st\<lparr>Arrays := Arrays st @ [replicate n zeroMessage]\<rparr>)"

definition literalSlice :: "Message list \<Rightarrow> store \<Rightarrow> slice \<times> store" where
  "literalSlice xs st =
     (\<lparr>Arr = length (Arrays st), Off = 0, Len = length xs, Cap = length xs\<rparr>,
      st\<lparr>Arrays := Arrays st @ [xs]\<rparr>)"

definition writeAt :: "nat \<Rightarrow> 'a list \<Rightarrow> 'a list \<Rightarrow> 'a list" where
  "writeAt pos xs arr = take pos arr @ xs @ drop (pos + length xs) arr"

text \<open>The capacity of the slice that \<^verbatim>\<open>append\<close> allocates when one element is followed by
  \<open>n\<close> more and the old capacity is one.\<close>

definition sysCap :: "env \<Rightarrow> nat \<Rightarrow> nat" where
  "sysCap env n = max (n + 1) (growslice env 1 (n + 1))"

definition appendSlice :: "env \<Rightarrow> slice \<Rightarrow> Message list \<Rightarrow> store \<Rightarrow> slice \<times> store" where
  "appendSlice env s xs st =
     (if xs = [] then (s, st)
      else if Len s + length xs \<le> Cap s then
        (s\<lparr>Len := Len s + length xs\<rparr>,
         st\<lparr>Arrays := (Arrays st)[Arr s := writeAt (Off s + Len s) xs (Arrays st ! Arr s)]\<rparr>)
      else
        (let needed = Len s + length xs;
             newcap = max needed (growslice env (Cap s) needed)
         in (\<lparr>Arr = length (Arrays st), Off = 0, Len = needed, Cap = newcap\<rparr>,
             st\<lparr>Arrays := Arrays st
                    @ [readSlice st s @ xs @ replicate (newcap - needed) zeroMessage]\<rparr>)))"

text \<open>
  \<^verbatim>\<open>BuildChatRequest\<close> and \<^verbatim>\<open>AddSystemMessage\<close> on the store. Of the request only the header
  of \<^verbatim>\<open>Messages\<close> is returned: \<^verbatim>\<open>BuildChatRequest\<close> leaves every other field at its zero value
  and \<^verbatim>\<open>AddSystemMessage\<close> assigns \<^verbatim>\<open>r.Messages\<close> alone. The history arrives by value, so the
  callee has a copy of the caller's header and shares its backing array.
\<close>

definition BuildChatRequest_st :: "env \<Rightarrow> slice \<Rightarrow> string \<Rightarrow> store \<Rightarrow> slice \<times> store" where
  "BuildChatRequest_st env history userMessage st =
     (let (messages, st) = makeSlice (Len history + 1) st;
          (messages, st) = appendSlice env messages (readSlice st history) st;
          (messages, st) =
            appendSlice env messages [\<lparr>Role = RoleUser, Content = userMessage, Name = []\<rparr>] st
      in (messages, st))"

definition AddSystemMessage_st :: "env \<Rightarrow> string \<Rightarrow> slice \<Rightarrow> store \<Rightarrow> slice \<times> store" where
  "AddSystemMessage_st env content messages st =
     (let (lit, st) = literalSlice [\<lparr>Role = RoleSystem, Content = content, Name = []\<rparr>] st
      in appendSlice env lit (readSlice st messages) st)"

text \<open>
  \<^verbatim>\<open>Generate\<close> through a pointer to the adapter: it reads the adapter struct and the messages
  of the request (\<open>request\<close> holds the request's other fields) and runs the adapter's
  \<^verbatim>\<open>Generate\<close>; the only part of the store it assigns is the list of requests sent.
\<close>

definition Client_Generate_st ::
  "env \<Rightarrow> nat \<Rightarrow> context \<Rightarrow> slice \<Rightarrow> Request \<Rightarrow> store \<Rightarrow> (error + Response) \<times> store" where
  "Client_Generate_st env p ctx messages request st =
     (let (result, sent) =
            Client_Generate env (Clients st ! p) ctx
              (request\<lparr>ReqMessages := readSlice st messages\<rparr>) (Sent st)
      in (result, st\<lparr>Sent := sent\<rparr>))"

definition Client_GenerateWithHistory_st ::
  "env \<Rightarrow> nat \<Rightarrow> context \<Rightarrow> slice \<Rightarrow> string \<Rightarrow> string \<Rightarrow> store
     \<Rightarrow> (error + Response) \<times> store" where
  "Client_GenerateWithHistory_st env p ctx history userMessage systemPrompt st =
     (let (request, st) = BuildChatRequest_st env history userMessage st;
          (request, st) =
            (if systemPrompt \<noteq> [] then AddSystemMessage_st env systemPrompt request st
             else (request, st))
      in Client_Generate_st env p ctx request zeroRequest st)"

section \<open>Definitions that follow the specification's words\<close>

text \<open>
  The precedence of the specification for a sampling parameter: the request-level value
  when set, else the config-level default (which may be unset too).
\<close>

definition resolve :: "'a option \<Rightarrow> 'a option \<Rightarrow> 'a option" where
  "resolve requestValue configDefault =
     (case requestValue of Some v \<Rightarrow> Some v | None \<Rightarrow> configDefault)"

text \<open>The nested \<^verbatim>\<open>parameters\<close> object of the earlier Qwen revision's payload, as a map.\<close>

definition qwenLegacy_parameters :: "adapter \<Rightarrow> Request \<Rightarrow> payload" where
  "qwenLegacy_parameters c r =
     (case qwenLegacy_buildPayload c r ''parameters'' of
        Some (JObject ps) \<Rightarrow> map_of ps
      | _ \<Rightarrow> Map.empty)"

text \<open>
  The turns of a message sequence in Cohere's vocabulary: a user message as a \<^verbatim>\<open>USER\<close> entry,
  an assistant message as a \<^verbatim>\<open>CHATBOT\<close> entry, in the original order, any other message
  dropped. \<open>cohereSplit\<close> is the closed form of what the builder's loop computes (lemma
  \<open>cohereMessages_split\<close>): for a sequence that ends in a user message, that message's
  content and the turns before it; for any other sequence, the empty string and the turns
  of the whole sequence.
\<close>

fun cohereTurns :: "Message list \<Rightarrow> json list" where
  "cohereTurns [] = []"
| "cohereTurns (m # ms) =
     (if Role m = RoleUser then [cohereTurn ''USER'' m]
      else if Role m = RoleAssistant then [cohereTurn ''CHATBOT'' m]
      else []) @ cohereTurns ms"

definition cohereSplit :: "Message list \<Rightarrow> string \<times> json list" where
  "cohereSplit msgs =
     (if msgs \<noteq> [] \<and> Role (last msgs) = RoleUser
        then (Content (last msgs), cohereTurns (butlast msgs))
      else ([], cohereTurns msgs))"

section \<open>Properties of the chat history\<close>

lemma Truncate_nonneg:
  assumes "0 \<le> n"
  shows "Truncate n h =
           Some (h\<lparr>Messages := drop (length (Messages h) - nat n) (Messages h)\<rparr>)"
proof (cases "int (length (Messages h)) > n")
  case True
  then have "nat (int (length (Messages h)) - n) = length (Messages h) - nat n"
    using assms by linarith
  then show ?thesis
    using True assms by (simp add: Truncate_def Let_def)
next
  case False
  then have "length (Messages h) - nat n = 0"
    using assms by linarith
  then show ?thesis
    using False by (simp add: Truncate_def)
qed

text \<open>
  Claim C8. For every chat history \<open>h\<close> and every integer \<open>n \<ge> 0\<close>, \<open>Truncate n h\<close> returns
  (it does not panic); the history it leaves has \<open>min n (length before)\<close> messages; its
  messages are the last \<open>n\<close> of the original sequence, which is the whole sequence when that
  had at most \<open>n\<close> messages; and they are a contiguous suffix of the original sequence, so
  their relative order is the original one.
\<close>

theorem Truncate_keeps_latest:
  assumes "0 \<le> n"
  shows "\<exists>h'. Truncate n h = Some h'
           \<and> length (GetMessages h') = min (nat n) (length (GetMessages h))
           \<and> GetMessages h' = drop (length (GetMessages h) - nat n) (GetMessages h)
           \<and> GetMessages h' = rev (take (nat n) (rev (GetMessages h)))
           \<and> (if length (GetMessages h) \<le> nat n then GetMessages h' = GetMessages h
              else GetMessages h =
                     take (length (GetMessages h) - nat n) (GetMessages h) @ GetMessages h')"
proof -
  let ?h' = "h\<lparr>Messages := drop (length (Messages h) - nat n) (Messages h)\<rparr>"
  have t: "Truncate n h = Some ?h'"
    using assms by (rule Truncate_nonneg)
  have l: "length (GetMessages ?h') = min (nat n) (length (GetMessages h))"
    by (simp add: GetMessages_def)
  have d: "GetMessages ?h' = drop (length (GetMessages h) - nat n) (GetMessages h)"
    by (simp add: GetMessages_def)
  have r: "GetMessages ?h' = rev (take (nat n) (rev (GetMessages h)))"
    by (simp add: GetMessages_def take_rev)
  have s: "if length (GetMessages h) \<le> nat n then GetMessages ?h' = GetMessages h
           else GetMessages h =
                  take (length (GetMessages h) - nat n) (GetMessages h) @ GetMessages ?h'"
    by (simp add: GetMessages_def)
  from t l d r s show ?thesis by blast
qed

theorem Truncate_keeps_latest_witness:
  "(0::int) \<le> 2
   \<and> (\<exists>h'. Truncate 2 \<lparr>Messages = [\<lparr>Role = ''system'', Content = ''s'', Name = []\<rparr>,
                                    \<lparr>Role = ''user'', Content = ''u'', Name = []\<rparr>,
                                    \<lparr>Role = ''assistant'', Content = ''a'', Name = []\<rparr>]\<rparr> = Some h'
           \<and> GetMessages h' = [\<lparr>Role = ''user'', Content = ''u'', Name = []\<rparr>,
                                \<lparr>Role = ''assistant'', Content = ''a'', Name = []\<rparr>])"
proof -
  let ?H = "\<lparr>Messages = [\<lparr>Role = ''system'', Content = ''s'', Name = []\<rparr>,
                         \<lparr>Role = ''user'', Content = ''u'', Name = []\<rparr>,
                         \<lparr>Role = ''assistant'', Content = ''a'', Name = []\<rparr>]\<rparr>"
  have n: "(0::int) \<le> 2" by simp
  from Truncate_keeps_latest [OF n, of ?H]
  obtain h' where t: "Truncate 2 ?H = Some h'"
    and d: "GetMessages h' = drop (length (GetMessages ?H) - nat 2) (GetMessages ?H)"
    by blast
  from d have "GetMessages h' = [\<lparr>Role = ''user'', Content = ''u'', Name = []\<rparr>,
                                 \<lparr>Role = ''assistant'', Content = ''a'', Name = []\<rparr>]"
    by (simp add: GetMessages_def)
  with t n show ?thesis by blast
qed

section \<open>Properties of the factory\<close>

lemma NewClient_routes:
  "NewClient config =
     (if Provider config = ''openai'' \<or> Provider config = ''deepseek''
        then map_sum id OpenAIClient (newOpenAIClient config)
      else if Provider config = ''qwen'' then map_sum id QwenClient (newQwenClient config)
      else if Provider config = ''azure'' then map_sum id AzureClient (newAzureClient config)
      else Inl (UnsupportedProviderError (Provider config)))"
  by (simp add: NewClient_def NewOpenAICompatibleClient_def NewQwenClient_def
      NewAzureClient_def ProviderOpenAI_def ProviderDeepSeek_def ProviderQwen_def
      ProviderAzure_def)

text \<open>
  What holds of the factory as it stands: the four tags it knows are routed to their
  adapters, OpenAI and DeepSeek to the same one, and any tag other than these four,
  the Cohere tag among them, is rejected as unsupported.
\<close>

lemma NewClient_known_providers:
  "(Provider config = ProviderOpenAI \<or> Provider config = ProviderDeepSeek
      \<longrightarrow> NewClient config = map_sum id OpenAIClient (newOpenAIClient config))
   \<and> (Provider config = ProviderQwen
      \<longrightarrow> NewClient config = map_sum id QwenClient (newQwenClient config))
   \<and> (Provider config = ProviderAzure
      \<longrightarrow> NewClient config = map_sum id AzureClient (newAzureClient config))
   \<and> (Provider config \<notin> {ProviderOpenAI, ProviderDeepSeek, ProviderQwen, ProviderAzure}
      \<longrightarrow> NewClient config = Inl (UnsupportedProviderError (Provider config)))"
  by (simp add: NewClient_routes ProviderOpenAI_def ProviderDeepSeek_def ProviderQwen_def
      ProviderAzure_def)

lemma NewClient_empty_key_known_providers:
  assumes "Provider config \<in> {ProviderOpenAI, ProviderDeepSeek, ProviderQwen, ProviderAzure}"
    and "APIKey config = []"
  shows "NewClient config = Inl (ConfigurationError ''API key is required'')"
  using assms
  by (auto simp add: NewClient_routes newOpenAIClient_def newQwenClient_def newAzureClient_def
      ProviderOpenAI_def ProviderDeepSeek_def ProviderQwen_def ProviderAzure_def)

text \<open>
  Claim C1 says that \<open>NewClient\<close> returns the matching adapter for each of the tags openai,
  deepseek, qwen, azure and cohere, and fails with \<open>UnsupportedProviderError\<close> for any other
  tag. The factory has no case for the Cohere tag: a configuration with that tag and an
  API key, which the Cohere constructor accepts, is rejected as an unsupported provider.
\<close>

theorem NewClient_cohere_unsupported:
  "NewClient (zeroConfig\<lparr>Provider := ProviderCohere, APIKey := ''key''\<rparr>)
     = Inl (UnsupportedProviderError ''cohere'')
   \<and> newCohereClient (zeroConfig\<lparr>Provider := ProviderCohere, APIKey := ''key''\<rparr>)
     = Inr \<lparr>clientConfig =
              zeroConfig\<lparr>Provider := ''cohere'', APIKey := ''key'',
                BaseURL := ''https://api.cohere.ai/v1'', Timeout := 30000000000,
                DefaultModel := ''embed-multilingual-v3.0''\<rparr>,
            clientHTTP = \<lparr>ClientTimeout = 30000000000\<rparr>\<rparr>"
  by (simp add: NewClient_routes ProviderCohere_def newCohereClient_def zeroConfig_def
      time_Second_def)

text \<open>
  Claim C4 says that \<open>NewClient\<close> with an empty API key fails with \<open>ConfigurationError\<close> for
  each of the five tags. For the Cohere tag the factory fails with
  \<open>UnsupportedProviderError\<close> instead, whatever the rest of the configuration is: the
  constructor that would report the missing key is never reached.
\<close>

theorem NewClient_cohere_empty_key:
  "NewClient (config\<lparr>Provider := ProviderCohere, APIKey := []\<rparr>)
     = Inl (UnsupportedProviderError ''cohere'')
   \<and> newCohereClient (config\<lparr>Provider := ProviderCohere, APIKey := []\<rparr>)
     = Inl (ConfigurationError ''API key is required'')"
  by (simp add: NewClient_routes ProviderCohere_def newCohereClient_def)

section \<open>Properties of the embedding calls\<close>

lemma roundTrip_ok:
  assumes "json_Marshal env payload = Some js" "newRequestOK env ctx url"
    "httpDo env sent \<lparr>ReqCtx = ctx, Method = ''POST'', URL = url, Header = headers, Body = js\<rparr>
       = Some \<lparr>StatusCode = status, RespBody = Some body\<rparr>"
    "200 \<le> status" "status < 300"
  shows "roundTrip env ctx url headers what api payload sent
         = (Inr body,
            sent @ [\<lparr>ReqCtx = ctx, Method = ''POST'', URL = url, Header = headers, Body = js\<rparr>])"
  using assms by (simp add: roundTrip_def Let_def)

lemma roundTrip_not_unsupported:
  "fst (roundTrip env ctx url headers what api payload sent) \<noteq> Inl (UnsupportedOperationError m)"
  by (simp add: roundTrip_def Let_def split: option.splits)

lemma roundTrip_sent:
  "snd (roundTrip env ctx url headers what api payload sent) =
     (case json_Marshal env payload of
        None \<Rightarrow> sent
      | Some js \<Rightarrow>
         (if newRequestOK env ctx url
            then sent @ [\<lparr>ReqCtx = ctx, Method = ''POST'', URL = url, Header = headers,
                          Body = js\<rparr>]
          else sent))"
  by (simp add: roundTrip_def Let_def split: option.splits)

lemma orderByIndex_indices:
  assumes "validIndices items n"
  shows "map ItemIndex (orderByIndex items) = [0..int n - 1]"
proof -
  let ?ss = "orderByIndex items"
  have len: "length items = n"
    and rng: "ItemIndex ` set items \<subseteq> {0..int n - 1}"
    and dis: "distinct (map ItemIndex items)"
    using assms by (auto simp: validIndices_def list_all_iff)
  have d: "distinct items" "inj_on ItemIndex (set items)"
    using dis by (simp_all add: distinct_map)
  have "card (ItemIndex ` set items) = n"
    using d len by (simp add: card_image distinct_card)
  then have "card (ItemIndex ` set items) = card {0..int n - 1}"
    by simp
  then have img: "ItemIndex ` set items = {0..int n - 1}"
    using rng by (simp add: card_subset_eq)
  have s1: "sorted (map ItemIndex ?ss)"
    by (simp add: orderByIndex_def)
  have d1: "distinct (map ItemIndex ?ss)"
    using d by (simp add: orderByIndex_def distinct_map)
  have e1: "set (map ItemIndex ?ss) = set [0..int n - 1]"
    using img by (simp add: orderByIndex_def)
  show ?thesis
    by (rule sorted_distinct_set_unique [OF s1 d1 _ _ e1]) simp_all
qed

lemma orderByIndex_same:
  "length (orderByIndex items) = length items" "set (orderByIndex items) = set items"
  by (simp_all add: orderByIndex_def)

lemma validIndices_nonempty:
  assumes "validIndices items n"
  shows "[] \<notin> set (map ItemEmbedding (orderByIndex items))"
  using assms by (auto simp: validIndices_def list_all_iff orderByIndex_def)

lemma openAI_embedding_ok:
  assumes "json_Marshal env (openAIEmbedPayload c request) = Some js"
    "newRequestOK env ctx (BaseURL (clientConfig c) @ EmbedPath unspec)"
    "httpDo env sent \<lparr>ReqCtx = ctx, Method = ''POST'',
                       URL = BaseURL (clientConfig c) @ EmbedPath unspec,
                       Header = bearerHeaders c, Body = js\<rparr>
       = Some \<lparr>StatusCode = status, RespBody = Some body\<rparr>"
    "200 \<le> status" "status < 300"
    "unmarshalOpenAIEmbed env body = Some apiResp" "Data apiResp \<noteq> []"
    "validIndices (Data apiResp) (length (Input request))"
  shows "openAIClient_CreateEmbedding unspec env c ctx request sent =
     (Inr \<lparr>Embeddings = map ItemEmbedding (orderByIndex (Data apiResp)),
            EmbRespModel = openAIClient_getModel c (EmbModel request),
            EmbTokensUsed = EmbedTotalTokens apiResp,
            EmbResponseTime = since env\<rparr>,
      sent @ [\<lparr>ReqCtx = ctx, Method = ''POST'',
               URL = BaseURL (clientConfig c) @ EmbedPath unspec,
               Header = bearerHeaders c, Body = js\<rparr>])"
  using assms(6,7,8)
  by (simp add: openAIClient_CreateEmbedding_def Let_def roundTrip_ok [OF assms(1-5)])

lemma openAI_embedding_invariant:
  assumes "openAIClient_CreateEmbedding unspec env c ctx request sent = (Inr resp, sent')"
  shows "length (Embeddings resp) = length (Input request) \<and> [] \<notin> set (Embeddings resp)"
proof -
  obtain r s where rt: "roundTrip env ctx (BaseURL (clientConfig c) @ EmbedPath unspec)
      (bearerHeaders c) (EmbedWhat unspec) (EmbedAPIName unspec) (openAIEmbedPayload c request) sent
      = (r, s)"
    by (cases "roundTrip env ctx (BaseURL (clientConfig c) @ EmbedPath unspec)
      (bearerHeaders c) (EmbedWhat unspec) (EmbedAPIName unspec) (openAIEmbedPayload c request) sent")
  from assms rt have "\<exists>items. validIndices items (length (Input request))
      \<and> Embeddings resp = map ItemEmbedding (orderByIndex items)"
    unfolding openAIClient_CreateEmbedding_def
    by (cases r; cases "unmarshalOpenAIEmbed env (projr r)")
       (auto split: if_splits)
  then obtain items where
    v: "validIndices items (length (Input request))"
    and e: "Embeddings resp = map ItemEmbedding (orderByIndex items)"
    by blast
  have "length (Embeddings resp) = length (Input request)"
    using v e by (simp add: orderByIndex_same validIndices_def)
  moreover have "[] \<notin> set (Embeddings resp)"
    unfolding e using v by (rule validIndices_nonempty)
  ultimately show ?thesis by simp
qed

lemma cohere_sent:
  "snd (cohereClient_CreateEmbedding env c ctx request sent) =
     snd (roundTrip env ctx (BaseURL (clientConfig c) @ ''/embed'') (bearerHeaders c)
            ''embedding '' ''Cohere Embedding API error'' (cohereEmbedPayload c request) sent)"
  by (simp add: cohereClient_CreateEmbedding_def Let_def split: prod.splits sum.splits option.splits)

lemma openAI_sent:
  "snd (openAIClient_CreateEmbedding unspec env c ctx request sent) =
     snd (roundTrip env ctx (BaseURL (clientConfig c) @ EmbedPath unspec) (bearerHeaders c)
            (EmbedWhat unspec) (EmbedAPIName unspec) (openAIEmbedPayload c request) sent)"
  by (simp add: openAIClient_CreateEmbedding_def Let_def split: prod.splits sum.splits option.splits)

lemma cohere_embedding_ok:
  assumes "json_Marshal env (cohereEmbedPayload c request) = Some js"
    "newRequestOK env ctx (BaseURL (clientConfig c) @ ''/embed'')"
    "httpDo env sent \<lparr>ReqCtx = ctx, Method = ''POST'',
                       URL = BaseURL (clientConfig c) @ ''/embed'',
                       Header = bearerHeaders c, Body = js\<rparr>
       = Some \<lparr>StatusCode = status, RespBody = Some body\<rparr>"
    "200 \<le> status" "status < 300"
    "unmarshalCohereEmbed env body = Some apiResp"
  shows "cohereClient_CreateEmbedding env c ctx request sent =
     (if RespEmbeddings apiResp = [] then Inl (EmptyResultError ''no embeddings in response'')
      else Inr \<lparr>Embeddings = RespEmbeddings apiResp,
                EmbRespModel = cohereEmbeddingModel c request,
                EmbTokensUsed = EmbedInputTokens apiResp,
                EmbResponseTime = since env\<rparr>,
      sent @ [\<lparr>ReqCtx = ctx, Method = ''POST'', URL = BaseURL (clientConfig c) @ ''/embed'',
               Header = bearerHeaders c, Body = js\<rparr>])"
  using assms(6)
  by (simp add: cohereClient_CreateEmbedding_def Let_def roundTrip_ok [OF assms(1-5)])

lemma cohere_not_stub:
  "fst (cohereClient_CreateEmbedding env c ctx request sent) \<noteq> Inl (UnsupportedOperationError m)"
  using roundTrip_not_unsupported [of env ctx "BaseURL (clientConfig c) @ ''/embed''"
      "bearerHeaders c" "''embedding ''" "''Cohere Embedding API error''"
      "cohereEmbedPayload c request" sent m]
  by (auto simp add: cohereClient_CreateEmbedding_def Let_def
      split: prod.splits sum.splits option.splits)

lemma openAI_not_stub:
  "fst (openAIClient_CreateEmbedding unspec env c ctx request sent)
     \<noteq> Inl (UnsupportedOperationError m)"
  using roundTrip_not_unsupported [of env ctx "BaseURL (clientConfig c) @ EmbedPath unspec"
      "bearerHeaders c" "EmbedWhat unspec" "EmbedAPIName unspec"
      "openAIEmbedPayload c request" sent m]
  by (auto simp add: openAIClient_CreateEmbedding_def Let_def
      split: prod.splits sum.splits option.splits)

text \<open>
  Claim C2. For every context and every embedding request, \<open>CreateEmbedding\<close> of the Azure
  adapter and of the Qwen adapter, called directly or through the \<open>Client\<close> interface,
  returns \<open>UnsupportedOperationError\<close> and leaves the list of requests handed to the
  transport as it was, so no HTTP request is performed. The Cohere and the
  OpenAI-compatible adapter implement the call:
  \<^item> it never returns \<open>UnsupportedOperationError\<close>;
  \<^item> it hands at most one request to the transport, and that request is the POST to the
    embedding endpoint with the adapter's bearer header, whose body is the marshalled
    payload: for Cohere the model, the inputs as \<^verbatim>\<open>texts\<close> and the \<^verbatim>\<open>input_type\<close>
    \<^verbatim>\<open>search_document\<close>; for OpenAI the model and the inputs as \<^verbatim>\<open>input\<close>;
  \<^item> when the transport answers that request with a 2xx status and a body that decodes,
    the Cohere call returns the vectors of the response in their order, provided there is
    at least one; the OpenAI call returns the vectors of the data ordered by index,
    provided the data are valid for the inputs, and then there is one vector for each
    input, the vector at position \<open>k\<close> being that of the datum with index \<open>k\<close>.
\<close>

theorem CreateEmbedding_support:
  "azureClient_CreateEmbedding env c ctx request sent
     = (Inl (UnsupportedOperationError ''embeddings not supported for Azure provider yet''), sent)
   \<and> qwenClient_CreateEmbedding env c ctx request sent
     = (Inl (UnsupportedOperationError ''not supported yet''), sent)
   \<and> Client_CreateEmbedding unspec env (AzureClient c) ctx request sent
     = (Inl (UnsupportedOperationError ''embeddings not supported for Azure provider yet''), sent)
   \<and> Client_CreateEmbedding unspec env (QwenClient c) ctx request sent
     = (Inl (UnsupportedOperationError ''not supported yet''), sent)
   \<and> Client_CreateEmbedding unspec env (QwenLegacyClient c) ctx request sent
     = (Inl (UnsupportedOperationError ''not supported yet''), sent)
   \<and> fst (cohereClient_CreateEmbedding env c ctx request sent)
       \<noteq> Inl (UnsupportedOperationError m)
   \<and> fst (openAIClient_CreateEmbedding unspec env c ctx request sent)
       \<noteq> Inl (UnsupportedOperationError m)
   \<and> snd (cohereClient_CreateEmbedding env c ctx request sent)
       = (case json_Marshal env
                 [''model'' \<mapsto> JString
                    (case EmbModel request of
                       Some model \<Rightarrow> model
                     | None \<Rightarrow>
                        (if DefaultModel (clientConfig c) \<noteq> [] then DefaultModel (clientConfig c)
                         else ''embed-multilingual-v3.0'')),
                  ''texts'' \<mapsto> JArray (map JString (Input request)),
                  ''input_type'' \<mapsto> JString ''search_document''] of
            None \<Rightarrow> sent
          | Some marshalled \<Rightarrow>
             (if newRequestOK env ctx (BaseURL (clientConfig c) @ ''/embed'')
                then sent @ [\<lparr>ReqCtx = ctx, Method = ''POST'',
                              URL = BaseURL (clientConfig c) @ ''/embed'',
                              Header = [(''Content-Type'', ''application/json''),
                                        (''Authorization'',
                                         ''Bearer '' @ APIKey (clientConfig c))],
                              Body = marshalled\<rparr>]
              else sent))
   \<and> snd (openAIClient_CreateEmbedding unspec env c ctx request sent)
       = (case json_Marshal env
                 [''model'' \<mapsto> JString
                    (case EmbModel request of
                       Some model \<Rightarrow> model
                     | None \<Rightarrow> DefaultModel (clientConfig c)),
                  ''input'' \<mapsto> JArray (map JString (Input request))] of
            None \<Rightarrow> sent
          | Some marshalled \<Rightarrow>
             (if newRequestOK env ctx (BaseURL (clientConfig c) @ EmbedPath unspec)
                then sent @ [\<lparr>ReqCtx = ctx, Method = ''POST'',
                              URL = BaseURL (clientConfig c) @ EmbedPath unspec,
                              Header = [(''Content-Type'', ''application/json''),
                                        (''Authorization'',
                                         ''Bearer '' @ APIKey (clientConfig c))],
                              Body = marshalled\<rparr>]
              else sent))
   \<and> (json_Marshal env (cohereEmbedPayload c request) = Some js
       \<and> newRequestOK env ctx (BaseURL (clientConfig c) @ ''/embed'')
       \<and> httpDo env sent \<lparr>ReqCtx = ctx, Method = ''POST'',
                            URL = BaseURL (clientConfig c) @ ''/embed'',
                            Header = bearerHeaders c, Body = js\<rparr>
           = Some \<lparr>StatusCode = status, RespBody = Some body\<rparr>
       \<and> 200 \<le> status \<and> status < 300
       \<and> unmarshalCohereEmbed env body = Some cohereResp
       \<and> RespEmbeddings cohereResp \<noteq> []
      \<longrightarrow> cohereClient_CreateEmbedding env c ctx request sent
           = (Inr \<lparr>Embeddings = RespEmbeddings cohereResp,
                   EmbRespModel = cohereEmbeddingModel c request,
                   EmbTokensUsed = EmbedInputTokens cohereResp,
                   EmbResponseTime = since env\<rparr>,
              sent @ [\<lparr>ReqCtx = ctx, Method = ''POST'',
                       URL = BaseURL (clientConfig c) @ ''/embed'',
                       Header = bearerHeaders c, Body = js\<rparr>]))
   \<and> (json_Marshal env (openAIEmbedPayload c request) = Some js
       \<and> newRequestOK env ctx (BaseURL (clientConfig c) @ EmbedPath unspec)
       \<and> httpDo env sent \<lparr>ReqCtx = ctx, Method = ''POST'',
                            URL = BaseURL (clientConfig c) @ EmbedPath unspec,
                            Header = bearerHeaders c, Body = js\<rparr>
           = Some \<lparr>StatusCode = status, RespBody = Some body\<rparr>
       \<and> 200 \<le> status \<and> status < 300
       \<and> unmarshalOpenAIEmbed env body = Some openAIResp
       \<and> Data openAIResp \<noteq> []
       \<and> validIndices (Data openAIResp) (length (Input request))
      \<longrightarrow> openAIClient_CreateEmbedding unspec env c ctx request sent
           = (Inr \<lparr>Embeddings = map ItemEmbedding (orderByIndex (Data openAIResp)),
                   EmbRespModel = openAIClient_getModel c (EmbModel request),
                   EmbTokensUsed = EmbedTotalTokens openAIResp,
                   EmbResponseTime = since env\<rparr>,
              sent @ [\<lparr>ReqCtx = ctx, Method = ''POST'',
                       URL = BaseURL (clientConfig c) @ EmbedPath unspec,
                       Header = bearerHeaders c, Body = js\<rparr>])
        \<and> length (map ItemEmbedding (orderByIndex (Data openAIResp))) = length (Input request)
        \<and> map ItemIndex (orderByIndex (Data openAIResp))
            = [0..int (length (Input request)) - 1]
        \<and> set (orderByIndex (Data openAIResp)) = set (Data openAIResp))"
proof -
  have az: "azureClient_CreateEmbedding env c ctx request sent
     = (Inl (UnsupportedOperationError ''embeddings not supported for Azure provider yet''), sent)"
    by (simp add: azureClient_CreateEmbedding_def)
  have qw: "qwenClient_CreateEmbedding env c ctx request sent
     = (Inl (UnsupportedOperationError ''not supported yet''), sent)"
    by (simp add: qwenClient_CreateEmbedding_def)
  have d1: "Client_CreateEmbedding unspec env (AzureClient c) ctx request sent
     = (Inl (UnsupportedOperationError ''embeddings not supported for Azure provider yet''), sent)"
    by (simp add: Client_CreateEmbedding_def az)
  have d2: "Client_CreateEmbedding unspec env (QwenClient c) ctx request sent
     = (Inl (UnsupportedOperationError ''not supported yet''), sent)"
    by (simp add: Client_CreateEmbedding_def qw)
  have d3: "Client_CreateEmbedding unspec env (QwenLegacyClient c) ctx request sent
     = (Inl (UnsupportedOperationError ''not supported yet''), sent)"
    by (simp add: Client_CreateEmbedding_def qw)
  have n1: "fst (cohereClient_CreateEmbedding env c ctx request sent)
       \<noteq> Inl (UnsupportedOperationError m)"
    by (rule cohere_not_stub)
  have n2: "fst (openAIClient_CreateEmbedding unspec env c ctx request sent)
       \<noteq> Inl (UnsupportedOperationError m)"
    by (rule openAI_not_stub)
  have s1: "snd (cohereClient_CreateEmbedding env c ctx request sent)
       = (case json_Marshal env
                 [''model'' \<mapsto> JString
                    (case EmbModel request of
                       Some model \<Rightarrow> model
                     | None \<Rightarrow>
                        (if DefaultModel (clientConfig c) \<noteq> [] then DefaultModel (clientConfig c)
                         else ''embed-multilingual-v3.0'')),
                  ''texts'' \<mapsto> JArray (map JString (Input request)),
                  ''input_type'' \<mapsto> JString ''search_document''] of
            None \<Rightarrow> sent
          | Some marshalled \<Rightarrow>
             (if newRequestOK env ctx (BaseURL (clientConfig c) @ ''/embed'')
                then sent @ [\<lparr>ReqCtx = ctx, Method = ''POST'',
                              URL = BaseURL (clientConfig c) @ ''/embed'',
                              Header = [(''Content-Type'', ''application/json''),
                                        (''Authorization'',
                                         ''Bearer '' @ APIKey (clientConfig c))],
                              Body = marshalled\<rparr>]
              else sent))"
    unfolding cohere_sent roundTrip_sent cohereEmbedPayload_def cohereEmbeddingModel_def
      bearerHeaders_def
    by (rule refl)
  have s2: "snd (openAIClient_CreateEmbedding unspec env c ctx request sent)
       = (case json_Marshal env
                 [''model'' \<mapsto> JString
                    (case EmbModel request of
                       Some model \<Rightarrow> model
                     | None \<Rightarrow> DefaultModel (clientConfig c)),
                  ''input'' \<mapsto> JArray (map JString (Input request))] of
            None \<Rightarrow> sent
          | Some marshalled \<Rightarrow>
             (if newRequestOK env ctx (BaseURL (clientConfig c) @ EmbedPath unspec)
                then sent @ [\<lparr>ReqCtx = ctx, Method = ''POST'',
                              URL = BaseURL (clientConfig c) @ EmbedPath unspec,
                              Header = [(''Content-Type'', ''application/json''),
                                        (''Authorization'',
                                         ''Bearer '' @ APIKey (clientConfig c))],
                              Body = marshalled\<rparr>]
              else sent))"
    unfolding openAI_sent roundTrip_sent openAIEmbedPayload_def openAIClient_getModel_def
      bearerHeaders_def
    by (rule refl)
  have k1: "json_Marshal env (cohereEmbedPayload c request) = Some js
       \<and> newRequestOK env ctx (BaseURL (clientConfig c) @ ''/embed'')
       \<and> httpDo env sent \<lparr>ReqCtx = ctx, Method = ''POST'',
                            URL = BaseURL (clientConfig c) @ ''/embed'',
                            Header = bearerHeaders c, Body = js\<rparr>
           = Some \<lparr>StatusCode = status, RespBody = Some body\<rparr>
       \<and> 200 \<le> status \<and> status < 300
       \<and> unmarshalCohereEmbed env body = Some cohereResp
       \<and> RespEmbeddings cohereResp \<noteq> []
      \<longrightarrow> cohereClient_CreateEmbedding env c ctx request sent
           = (Inr \<lparr>Embeddings = RespEmbeddings cohereResp,
                   EmbRespModel = cohereEmbeddingModel c request,
                   EmbTokensUsed = EmbedInputTokens cohereResp,
                   EmbResponseTime = since env\<rparr>,
              sent @ [\<lparr>ReqCtx = ctx, Method = ''POST'',
                       URL = BaseURL (clientConfig c) @ ''/embed'',
                       Header = bearerHeaders c, Body = js\<rparr>])"
    using cohere_embedding_ok [of env c request js ctx sent status body cohereResp] by simp
  have k2: "json_Marshal env (openAIEmbedPayload c request) = Some js
       \<and> newRequestOK env ctx (BaseURL (clientConfig c) @ EmbedPath unspec)
       \<and> httpDo env sent \<lparr>ReqCtx = ctx, Method = ''POST'',
                            URL = BaseURL (clientConfig c) @ EmbedPath unspec,
                            Header = bearerHeaders c, Body = js\<rparr>
           = Some \<lparr>StatusCode = status, RespBody = Some body\<rparr>
       \<and> 200 \<le> status \<and> status < 300
       \<and> unmarshalOpenAIEmbed env body = Some openAIResp
       \<and> Data openAIResp \<noteq> []
       \<and> validIndices (Data openAIResp) (length (Input request))
      \<longrightarrow> openAIClient_CreateEmbedding unspec env c ctx request sent
           = (Inr \<lparr>Embeddings = map ItemEmbedding (orderByIndex (Data openAIResp)),
                   EmbRespModel = openAIClient_getModel c (EmbModel request),
                   EmbTokensUsed = EmbedTotalTokens openAIResp,
                   EmbResponseTime = since env\<rparr>,
              sent @ [\<lparr>ReqCtx = ctx, Method = ''POST'',
                       URL = BaseURL (clientConfig c) @ EmbedPath unspec,
                       Header = bearerHeaders c, Body = js\<rparr>])
        \<and> length (map ItemEmbedding (orderByIndex (Data openAIResp))) = length (Input request)
        \<and> map ItemIndex (orderByIndex (Data openAIResp))
            = [0..int (length (Input request)) - 1]
        \<and> set (orderByIndex (Data openAIResp)) = set (Data openAIResp)"
    using openAI_embedding_ok [of env c request js ctx unspec sent status body openAIResp]
      orderByIndex_indices [of "Data openAIResp" "length (Input request)"]
      orderByIndex_same [of "Data openAIResp"]
    by (simp add: validIndices_def)
  from az qw d1 d2 d3 n1 n2 s1 s2 k1 k2 show ?thesis
    by (intro conjI)
qed

theorem CreateEmbedding_support_witness:
  "json_Marshal
     (stubEnv 200 None
        (Some \<lparr>RespEmbeddings = [ [1, 2], [5, 6] ], ID = [], EmbedInputTokens = 3\<rparr>)
        (Some \<lparr>Data = [\<lparr>ItemIndex = 1, ItemEmbedding = [3]\<rparr>,
                       \<lparr>ItemIndex = 0, ItemEmbedding = [4]\<rparr>], EmbedTotalTokens = 3\<rparr>))
     (cohereEmbedPayload stubAdapter \<lparr>Input = [''a'', ''b''], EmbModel = None\<rparr>) = Some ''{}''
   \<and> validIndices [\<lparr>ItemIndex = 1, ItemEmbedding = [3]\<rparr>,
                    \<lparr>ItemIndex = 0, ItemEmbedding = [4]\<rparr>]
         (length (Input \<lparr>Input = [''a'', ''b''], EmbModel = None\<rparr>))
   \<and> azureClient_CreateEmbedding
       (stubEnv 200 None
          (Some \<lparr>RespEmbeddings = [ [1, 2], [5, 6] ], ID = [], EmbedInputTokens = 3\<rparr>)
          (Some \<lparr>Data = [\<lparr>ItemIndex = 1, ItemEmbedding = [3]\<rparr>,
                         \<lparr>ItemIndex = 0, ItemEmbedding = [4]\<rparr>], EmbedTotalTokens = 3\<rparr>))
       stubAdapter (Context 0) \<lparr>Input = [''a'', ''b''], EmbModel = None\<rparr> []
     = (Inl (UnsupportedOperationError ''embeddings not supported for Azure provider yet''), [])
   \<and> cohereClient_CreateEmbedding
       (stubEnv 200 None
          (Some \<lparr>RespEmbeddings = [ [1, 2], [5, 6] ], ID = [], EmbedInputTokens = 3\<rparr>)
          (Some \<lparr>Data = [\<lparr>ItemIndex = 1, ItemEmbedding = [3]\<rparr>,
                         \<lparr>ItemIndex = 0, ItemEmbedding = [4]\<rparr>], EmbedTotalTokens = 3\<rparr>))
       stubAdapter (Context 0) \<lparr>Input = [''a'', ''b''], EmbModel = None\<rparr> []
     = (Inr \<lparr>Embeddings = [ [1, 2], [5, 6] ], EmbRespModel = ''embed-multilingual-v3.0'',
             EmbTokensUsed = 3, EmbResponseTime = 0\<rparr>,
        [\<lparr>ReqCtx = Context 0, Method = ''POST'', URL = ''/embed'',
          Header = [(''Content-Type'', ''application/json''),
                    (''Authorization'', ''Bearer key'')],
          Body = ''{}''\<rparr>])
   \<and> openAIClient_CreateEmbedding stubUnspecified
       (stubEnv 200 None
          (Some \<lparr>RespEmbeddings = [ [1, 2], [5, 6] ], ID = [], EmbedInputTokens = 3\<rparr>)
          (Some \<lparr>Data = [\<lparr>ItemIndex = 1, ItemEmbedding = [3]\<rparr>,
                         \<lparr>ItemIndex = 0, ItemEmbedding = [4]\<rparr>], EmbedTotalTokens = 3\<rparr>))
       stubAdapter (Context 0) \<lparr>Input = [''a'', ''b''], EmbModel = None\<rparr> []
     = (Inr \<lparr>Embeddings = [ [4], [3] ], EmbRespModel = [],
             EmbTokensUsed = 3, EmbResponseTime = 0\<rparr>,
        [\<lparr>ReqCtx = Context 0, Method = ''POST'', URL = ''/embeddings'',
          Header = [(''Content-Type'', ''application/json''),
                    (''Authorization'', ''Bearer key'')],
          Body = ''{}''\<rparr>])"
proof -
  let ?cr = "\<lparr>RespEmbeddings = [ [1, 2], [5, 6] ], ID = [], EmbedInputTokens = 3\<rparr>"
  let ?or = "\<lparr>Data = [\<lparr>ItemIndex = 1, ItemEmbedding = [3]\<rparr>,
                      \<lparr>ItemIndex = 0, ItemEmbedding = [4]\<rparr>], EmbedTotalTokens = 3\<rparr>"
  let ?env = "stubEnv 200 None (Some ?cr) (Some ?or)"
  let ?rq = "\<lparr>Input = [''a'', ''b''], EmbModel = None\<rparr>"
  have v: "validIndices (Data ?or) (length (Input ?rq))"
    by (simp add: validIndices_def)
  have o: "orderByIndex (Data ?or) = [\<lparr>ItemIndex = 0, ItemEmbedding = [4]\<rparr>,
                                      \<lparr>ItemIndex = 1, ItemEmbedding = [3]\<rparr>]"
    by (simp add: orderByIndex_def)
  have h: "json_Marshal ?env (cohereEmbedPayload stubAdapter ?rq) = Some ''{}''"
    "json_Marshal ?env (openAIEmbedPayload stubAdapter ?rq) = Some ''{}''"
    "newRequestOK ?env (Context 0) (BaseURL (clientConfig stubAdapter) @ ''/embed'')"
    "newRequestOK ?env (Context 0)
       (BaseURL (clientConfig stubAdapter) @ EmbedPath stubUnspecified)"
    "httpDo ?env [] \<lparr>ReqCtx = Context 0, Method = ''POST'',
                      URL = BaseURL (clientConfig stubAdapter) @ ''/embed'',
                      Header = bearerHeaders stubAdapter, Body = ''{}''\<rparr>
       = Some \<lparr>StatusCode = 200, RespBody = Some ''body''\<rparr>"
    "httpDo ?env [] \<lparr>ReqCtx = Context 0, Method = ''POST'',
                      URL = BaseURL (clientConfig stubAdapter) @ EmbedPath stubUnspecified,
                      Header = bearerHeaders stubAdapter, Body = ''{}''\<rparr>
       = Some \<lparr>StatusCode = 200, RespBody = Some ''body''\<rparr>"
    "unmarshalCohereEmbed ?env ''body'' = Some ?cr"
    "unmarshalOpenAIEmbed ?env ''body'' = Some ?or"
    by (simp_all add: stubEnv_def)
  from CreateEmbedding_support
    [of ?env stubAdapter "Context 0" ?rq "[]" stubUnspecified "[]" "''{}''" 200 "''body''"
        ?cr ?or]
  have az: "azureClient_CreateEmbedding ?env stubAdapter (Context 0) ?rq []
     = (Inl (UnsupportedOperationError ''embeddings not supported for Azure provider yet''), [])"
    and co: "cohereClient_CreateEmbedding ?env stubAdapter (Context 0) ?rq []
       = (Inr \<lparr>Embeddings = RespEmbeddings ?cr,
               EmbRespModel = cohereEmbeddingModel stubAdapter ?rq,
               EmbTokensUsed = EmbedInputTokens ?cr,
               EmbResponseTime = since ?env\<rparr>,
          [] @ [\<lparr>ReqCtx = Context 0, Method = ''POST'',
                  URL = BaseURL (clientConfig stubAdapter) @ ''/embed'',
                  Header = bearerHeaders stubAdapter, Body = ''{}''\<rparr>])"
    and op: "openAIClient_CreateEmbedding stubUnspecified ?env stubAdapter (Context 0) ?rq []
       = (Inr \<lparr>Embeddings = map ItemEmbedding (orderByIndex (Data ?or)),
               EmbRespModel = openAIClient_getModel stubAdapter (EmbModel ?rq),
               EmbTokensUsed = EmbedTotalTokens ?or,
               EmbResponseTime = since ?env\<rparr>,
          [] @ [\<lparr>ReqCtx = Context 0, Method = ''POST'',
                  URL = BaseURL (clientConfig stubAdapter) @ EmbedPath stubUnspecified,
                  Header = bearerHeaders stubAdapter, Body = ''{}''\<rparr>])"
    using h v by simp_all
  have c: "cohereEmbeddingModel stubAdapter ?rq = ''embed-multilingual-v3.0''"
    "openAIClient_getModel stubAdapter (EmbModel ?rq) = []"
    "BaseURL (clientConfig stubAdapter) = []"
    "bearerHeaders stubAdapter
       = [(''Content-Type'', ''application/json''), (''Authorization'', ''Bearer key'')]"
    "EmbedPath stubUnspecified = ''/embeddings''" "since ?env = 0"
    by (simp_all add: cohereEmbeddingModel_def openAIClient_getModel_def stubAdapter_def
        zeroConfig_def bearerHeaders_def stubUnspecified_def stubEnv_def)
  show ?thesis
    using h(1) v az co op unfolding o c by simp
qed

lemma cohere_empty_result:
  assumes "json_Marshal env (cohereEmbedPayload c request) = Some js"
    "newRequestOK env ctx (BaseURL (clientConfig c) @ ''/embed'')"
    "httpDo env sent \<lparr>ReqCtx = ctx, Method = ''POST'',
                       URL = BaseURL (clientConfig c) @ ''/embed'',
                       Header = bearerHeaders c, Body = js\<rparr>
       = Some \<lparr>StatusCode = status, RespBody = Some body\<rparr>"
    "200 \<le> status" "status < 300"
    "unmarshalCohereEmbed env body = Some apiResp" "RespEmbeddings apiResp = []"
  shows "fst (cohereClient_CreateEmbedding env c ctx request sent)
           = Inl (EmptyResultError ''no embeddings in response'')"
  using assms(7) cohere_embedding_ok [OF assms(1-6)] by simp

text \<open>
  Claim C3 says that a successful \<open>CreateEmbedding\<close> returns as many vectors as the request
  has input texts, and that a 2xx response with zero vectors is an \<open>EmptyResultError\<close>. The
  second part holds (\<open>cohere_empty_result\<close>). The first does not: the Cohere adapter
  returns the vectors of the response as they are, and the only test it makes is that
  there is at least one. For a request with the two inputs \<^verbatim>\<open>"a"\<close> and \<^verbatim>\<open>"b"\<close> and a 200
  response whose body holds one vector, the call succeeds with one vector.
\<close>

theorem cohere_embedding_count_mismatch:
  "cohereClient_CreateEmbedding
     (stubEnv 200 None (Some \<lparr>RespEmbeddings = [ [1]], ID = [], EmbedInputTokens = 2\<rparr>) None)
     stubAdapter (Context 0) \<lparr>Input = [''a'', ''b''], EmbModel = None\<rparr> []
   = (Inr \<lparr>Embeddings = [ [1]], EmbRespModel = ''embed-multilingual-v3.0'',
           EmbTokensUsed = 2, EmbResponseTime = 0\<rparr>,
      [\<lparr>ReqCtx = Context 0, Method = ''POST'', URL = ''/embed'',
        Header = [(''Content-Type'', ''application/json''), (''Authorization'', ''Bearer key'')],
        Body = ''{}''\<rparr>])
   \<and> length [ [1::float64]] \<noteq> length (Input \<lparr>Input = [''a'', ''b''], EmbModel = None\<rparr>)"
  by (simp add: cohereClient_CreateEmbedding_def Let_def roundTrip_def stubEnv_def stubAdapter_def
      zeroConfig_def cohereEmbeddingModel_def bearerHeaders_def)

section \<open>Properties of GenerateWithHistory\<close>

lemma history_request:
  "(let request = BuildChatRequest (GetMessages h) um;
        request = (if sp \<noteq> [] then AddSystemMessage sp request else request)
    in f request)
   = f (zeroRequest\<lparr>ReqMessages :=
          (if sp \<noteq> [] then [\<lparr>Role = RoleSystem, Content = sp, Name = []\<rparr>] else [])
          @ GetMessages h @ [\<lparr>Role = RoleUser, Content = um, Name = []\<rparr>]\<rparr>)"
  by (simp add: BuildChatRequest_def AddSystemMessage_def Let_def)

lemma Client_GenerateWithHistory_eq:
  "Client_GenerateWithHistory env cl ctx h um sp sent
     = Client_Generate env cl ctx
         (zeroRequest\<lparr>ReqMessages :=
            (if sp \<noteq> [] then [\<lparr>Role = RoleSystem, Content = sp, Name = []\<rparr>] else [])
            @ GetMessages h @ [\<lparr>Role = RoleUser, Content = um, Name = []\<rparr>]\<rparr>) sent"
  unfolding Client_GenerateWithHistory_def Client_Generate_def
    openAIClient_GenerateWithHistory_def qwenClient_GenerateWithHistory_def
    qwenLegacy_GenerateWithHistory_def azureClient_GenerateWithHistory_def
    cohereClient_GenerateWithHistory_def history_request
  by (cases cl) simp_all



section \<open>Properties of the payload builders\<close>

lemma setParam_app:
  "setParam key wrap a b m k
   = (if k = key then (case resolve a b of Some v \<Rightarrow> Some (wrap v) | None \<Rightarrow> m k) else m k)"
  by (simp add: setParam_def resolve_def split: option.splits)

lemma setNested_app:
  "map_of (setNested key wrap a b ps) k
   = (if k = key then (case resolve a b of Some v \<Rightarrow> Some (wrap v) | None \<Rightarrow> map_of ps k)
      else map_of ps k)"
  by (simp add: setNested_def resolve_def update_conv' split: option.splits)

lemma add_none: "e k = None \<Longrightarrow> (m ++ e) k = m k"
  by (simp add: map_add_def)

lemma add_some: "e k = Some v \<Longrightarrow> (m ++ e) k = Some v"
  by (simp add: map_add_def)

lemma roles_distinct:
  "RoleSystem \<noteq> RoleUser" "RoleSystem \<noteq> RoleAssistant" "RoleUser \<noteq> RoleAssistant"
  by (simp_all add: RoleSystem_def RoleUser_def RoleAssistant_def)

text \<open>The loop of the Cohere builder computes \<open>cohereSplit\<close>: induction on the messages
  still to visit, with the index, the message and the history so far generalised.\<close>

lemma cohereMessages_eq:
  "i + length msgs = n \<Longrightarrow>
   cohereMessages n i msgs message hist =
     (if msgs \<noteq> [] \<and> Role (last msgs) = RoleUser
        then (Content (last msgs), hist @ cohereTurns (butlast msgs))
      else (message, hist @ cohereTurns msgs))"
proof (induction msgs arbitrary: i message hist)
  case Nil
  then show ?case by simp
next
  case (Cons m ms)
  have idx: "(int i = int n - 1) = (ms = [])"
    using Cons.prems by auto
  have step: "Suc i + length ms = n"
    using Cons.prems by simp
  show ?case
  proof (cases "ms = []")
    case True
    then show ?thesis
      using idx roles_distinct by auto
  next
    case False
    then show ?thesis
      using idx roles_distinct Cons.IH [OF step] by auto
  qed
qed

lemma cohereMessages_split:
  "cohereMessages (length msgs) 0 msgs [] [] = cohereSplit msgs"
  by (simp add: cohereMessages_eq cohereSplit_def)

lemma cohere_payload_message:
  assumes "ExtraParams request ''message'' = None"
  shows "cohereClient_buildPayload c request ''message''
           = Some (JString (fst (cohereSplit (ReqMessages request))))"
  using assms
  by (simp add: cohereClient_buildPayload_def cohereMessages_split Let_def split_def
      setParam_app add_none)

lemma cohere_payload_history:
  assumes "ExtraParams request ''chat_history'' = None"
  shows "cohereClient_buildPayload c request ''chat_history''
           = (if snd (cohereSplit (ReqMessages request)) = [] then None
              else Some (JArray (snd (cohereSplit (ReqMessages request)))))"
  using assms
  by (simp add: cohereClient_buildPayload_def cohereMessages_split Let_def split_def
      setParam_app add_none)

text \<open>
  What holds of the claim on the code: for a request that ends in a user message and whose
  \<^verbatim>\<open>ExtraParams\<close> has neither the key \<^verbatim>\<open>message\<close> nor the key \<^verbatim>\<open>chat_history\<close>, the payload's
  \<^verbatim>\<open>message\<close> is the content of that message and \<^verbatim>\<open>chat_history\<close> holds the turns before it,
  every user turn as \<^verbatim>\<open>USER\<close> and every assistant turn as \<^verbatim>\<open>CHATBOT\<close>, in the original order,
  every system message dropped (the key is absent when there is no turn). The requests
  that \<open>GenerateWithHistory\<close> builds are of this kind; the scenario of the specification
  is one of them.
\<close>

lemma cohere_payload_ending_in_user:
  assumes "ReqMessages request = earlier @ [m]" and "Role m = RoleUser"
    and "ExtraParams request ''message'' = None"
    and "ExtraParams request ''chat_history'' = None"
  shows "cohereClient_buildPayload c request ''message'' = Some (JString (Content m))
       \<and> cohereClient_buildPayload c request ''chat_history''
           = (if cohereTurns earlier = [] then None else Some (JArray (cohereTurns earlier)))"
proof -
  have "cohereSplit (ReqMessages request) = (Content m, cohereTurns earlier)"
    using assms(1,2) by (simp add: cohereSplit_def)
  then show ?thesis
    using cohere_payload_message [OF assms(3), of c] cohere_payload_history [OF assms(4), of c]
    by simp
qed

lemma cohere_payload_scenario:
  "cohereClient_buildPayload stubAdapter
       (BuildChatRequest [\<lparr>Role = ''user'', Content = ''a'', Name = []\<rparr>,
                          \<lparr>Role = ''assistant'', Content = ''b'', Name = []\<rparr>] ''c'')
       ''message'' = Some (JString ''c'')
   \<and> cohereClient_buildPayload stubAdapter
       (BuildChatRequest [\<lparr>Role = ''user'', Content = ''a'', Name = []\<rparr>,
                          \<lparr>Role = ''assistant'', Content = ''b'', Name = []\<rparr>] ''c'')
       ''chat_history''
       = Some (JArray [JObject [(''role'', JString ''USER''), (''message'', JString ''a'')],
                       JObject [(''role'', JString ''CHATBOT''), (''message'', JString ''b'')]])"
proof -
  let ?R = "BuildChatRequest [\<lparr>Role = ''user'', Content = ''a'', Name = []\<rparr>,
                              \<lparr>Role = ''assistant'', Content = ''b'', Name = []\<rparr>] ''c''"
  have m: "ReqMessages ?R = [\<lparr>Role = ''user'', Content = ''a'', Name = []\<rparr>,
                             \<lparr>Role = ''assistant'', Content = ''b'', Name = []\<rparr>]
                            @ [\<lparr>Role = RoleUser, Content = ''c'', Name = []\<rparr>]"
    by (simp add: BuildChatRequest_def zeroRequest_def)
  have e: "ExtraParams ?R ''message'' = None" "ExtraParams ?R ''chat_history'' = None"
    by (simp_all add: BuildChatRequest_def zeroRequest_def)
  have t: "cohereTurns [\<lparr>Role = ''user'', Content = ''a'', Name = []\<rparr>,
                        \<lparr>Role = ''assistant'', Content = ''b'', Name = []\<rparr>]
           = [JObject [(''role'', JString ''USER''), (''message'', JString ''a'')],
              JObject [(''role'', JString ''CHATBOT''), (''message'', JString ''b'')]]"
    by (simp add: cohereTurn_def RoleUser_def RoleAssistant_def)
  have r: "Role \<lparr>Role = RoleUser, Content = ''c'', Name = []\<rparr> = RoleUser"
    by simp
  show ?thesis
    using cohere_payload_ending_in_user [OF m r e, of stubAdapter] unfolding t by simp
qed

text \<open>
  Claim C6 says that for every request given to the Cohere builder the payload's \<^verbatim>\<open>message\<close>
  is the content of the latest user message, and that the turns before it are in
  \<^verbatim>\<open>chat_history\<close> as \<^verbatim>\<open>USER\<close> and \<^verbatim>\<open>CHATBOT\<close> entries, system messages being dropped. The
  builder's comment reads "Last user message is the main message", but its test is
  \<^verbatim>\<open>i == len(request.Messages)-1\<close>: a user message becomes \<^verbatim>\<open>message\<close> only when it is the last
  message of the request. For the request with the messages user \<^verbatim>\<open>"a"\<close>, assistant \<^verbatim>\<open>"b"\<close>
  the latest user message is \<^verbatim>\<open>"a"\<close>; the payload's \<^verbatim>\<open>message\<close> is the empty string, and \<^verbatim>\<open>"a"\<close>
  is sent as a turn of the chat history.
\<close>

theorem cohere_latest_user_message_lost:
  "cohereClient_buildPayload stubAdapter
     (zeroRequest\<lparr>ReqMessages := [\<lparr>Role = ''user'', Content = ''a'', Name = []\<rparr>,
                                  \<lparr>Role = ''assistant'', Content = ''b'', Name = []\<rparr>]\<rparr>)
     ''message'' = Some (JString [])
   \<and> cohereClient_buildPayload stubAdapter
     (zeroRequest\<lparr>ReqMessages := [\<lparr>Role = ''user'', Content = ''a'', Name = []\<rparr>,
                                  \<lparr>Role = ''assistant'', Content = ''b'', Name = []\<rparr>]\<rparr>)
     ''chat_history''
     = Some (JArray [JObject [(''role'', JString ''USER''), (''message'', JString ''a'')],
                     JObject [(''role'', JString ''CHATBOT''), (''message'', JString ''b'')]])"
  by (simp add: cohereClient_buildPayload_def zeroRequest_def RoleSystem_def RoleUser_def
      RoleAssistant_def cohereTurn_def Let_def setParam_app add_none)

lemma getMaxTokens_resolve:
  "qwenClient_getMaxTokens c override
     = (case resolve override (DefaultMaxTokens (clientConfig c)) of
          Some m \<Rightarrow> m | None \<Rightarrow> 1500)"
  by (simp add: qwenClient_getMaxTokens_def resolve_def split: option.splits)

lemma openAI_params:
  assumes "ExtraParams r ''temperature'' = None" "ExtraParams r ''max_tokens'' = None"
    "ExtraParams r ''top_p'' = None" "ExtraParams r ''top_k'' = None"
  shows "openAIClient_buildPayload c r ''temperature''
           = map_option JFloat (resolve (Temperature r) (DefaultTemperature (clientConfig c)))"
    and "openAIClient_buildPayload c r ''max_tokens''
           = map_option JInt (resolve (MaxTokens r) (DefaultMaxTokens (clientConfig c)))"
    and "openAIClient_buildPayload c r ''top_p''
           = map_option JFloat (resolve (TopP r) (DefaultTopP (clientConfig c)))"
    and "openAIClient_buildPayload c r ''top_k'' = None"
  using assms
  by (simp_all add: openAIClient_buildPayload_def Let_def setParam_app add_none
      split: option.split)

lemma azure_params:
  assumes "ExtraParams r ''temperature'' = None" "ExtraParams r ''max_tokens'' = None"
    "ExtraParams r ''top_p'' = None" "ExtraParams r ''top_k'' = None"
  shows "azureClient_buildPayload c r ''temperature''
           = map_option JFloat (resolve (Temperature r) (DefaultTemperature (clientConfig c)))"
    and "azureClient_buildPayload c r ''max_tokens''
           = map_option JInt (resolve (MaxTokens r) (DefaultMaxTokens (clientConfig c)))"
    and "azureClient_buildPayload c r ''top_p''
           = map_option JFloat (resolve (TopP r) (DefaultTopP (clientConfig c)))"
    and "azureClient_buildPayload c r ''top_k'' = None"
  using assms
  by (simp_all add: azureClient_buildPayload_def Let_def setParam_app add_none
      split: option.split)

lemma qwen_params:
  assumes "ExtraParams r ''temperature'' = None" "ExtraParams r ''max_tokens'' = None"
    "ExtraParams r ''top_p'' = None" "ExtraParams r ''top_k'' = None"
  shows "qwenClient_buildPayload c r ''temperature''
           = map_option JFloat (resolve (Temperature r) (DefaultTemperature (clientConfig c)))"
    and "qwenClient_buildPayload c r ''max_tokens''
           = Some (JInt (case resolve (MaxTokens r) (DefaultMaxTokens (clientConfig c)) of
                           Some m \<Rightarrow> m | None \<Rightarrow> 1500))"
    and "qwenClient_buildPayload c r ''top_p''
           = map_option JFloat (resolve (TopP r) (DefaultTopP (clientConfig c)))"
    and "qwenClient_buildPayload c r ''top_k''
           = map_option JInt (resolve (TopK r) (DefaultTopK (clientConfig c)))"
  using assms
  by (simp_all add: qwenClient_buildPayload_def Let_def setParam_app add_none
      getMaxTokens_resolve split: option.split)

lemma qwenLegacy_params:
  shows "qwenLegacy_parameters c r ''temperature''
           = map_option JFloat (resolve (Temperature r) (DefaultTemperature (clientConfig c)))"
    and "qwenLegacy_parameters c r ''max_tokens''
           = Some (JInt (case resolve (MaxTokens r) (DefaultMaxTokens (clientConfig c)) of
                           Some m \<Rightarrow> m | None \<Rightarrow> 1500))"
    and "qwenLegacy_parameters c r ''top_p''
           = map_option JFloat (resolve (TopP r) (DefaultTopP (clientConfig c)))"
    and "qwenLegacy_parameters c r ''top_k''
           = map_option JInt (resolve (TopK r) (DefaultTopK (clientConfig c)))"
  by (simp_all add: qwenLegacy_parameters_def qwenLegacy_buildPayload_def Let_def
      setNested_app getMaxTokens_resolve split: option.split)

lemma cohere_params:
  assumes "ExtraParams r ''temperature'' = None" "ExtraParams r ''max_tokens'' = None"
    "ExtraParams r ''p'' = None" "ExtraParams r ''k'' = None"
  shows "cohereClient_buildPayload c r ''temperature''
           = map_option JFloat (resolve (Temperature r) (DefaultTemperature (clientConfig c)))"
    and "cohereClient_buildPayload c r ''max_tokens''
           = map_option JInt (resolve (MaxTokens r) (DefaultMaxTokens (clientConfig c)))"
    and "cohereClient_buildPayload c r ''p''
           = map_option JFloat (resolve (TopP r) (DefaultTopP (clientConfig c)))"
    and "cohereClient_buildPayload c r ''k''
           = map_option JInt (resolve (TopK r) (DefaultTopK (clientConfig c)))"
  using assms
  by (simp_all add: cohereClient_buildPayload_def Let_def split_def setParam_app add_none
      split: option.split)

text \<open>
  Claim C7 says that every adapter's payload builder resolves each of temperature,
  maxTokens, topP and topK from the request, else the configuration, else a hardcoded
  default. The OpenAI-compatible builder does not read \<^verbatim>\<open>TopK\<close> at all: a request with
  \<^verbatim>\<open>TopK\<close> set to 5 gives a payload without the key \<^verbatim>\<open>top_k\<close> (and without any key holding 5).
\<close>

theorem openAI_top_k_counterexample:
  "openAIClient_buildPayload stubAdapter (zeroRequest\<lparr>TopK := Some 5\<rparr>) ''top_k'' = None
   \<and> dom (openAIClient_buildPayload stubAdapter (zeroRequest\<lparr>TopK := Some 5\<rparr>))
       = {''model'', ''messages'', ''stream''}"
  by (auto simp add: openAIClient_buildPayload_def zeroRequest_def stubAdapter_def
      zeroConfig_def Let_def setParam_def split: if_splits)

text \<open>
  Claim C7 as amended. For every request whose \<^verbatim>\<open>ExtraParams\<close> names none of the sampling
  keys, and every configuration: a sampling parameter that a builder sends is the
  request-level value when set, else the config-level default when set, and the key is
  absent when neither is set, except for the Qwen \<^verbatim>\<open>max_tokens\<close>, which is then 1500.
  The OpenAI-compatible and the Azure builder send \<^verbatim>\<open>temperature\<close>, \<^verbatim>\<open>max_tokens\<close> and \<^verbatim>\<open>top_p\<close>
  and never \<^verbatim>\<open>top_k\<close>; the Qwen builder sends all four (the earlier revision inside the
  nested \<^verbatim>\<open>parameters\<close> object); the Cohere builder sends all four, topP as \<^verbatim>\<open>p\<close> and topK
  as \<^verbatim>\<open>k\<close>.
\<close>

theorem sampling_parameters_resolved:
  assumes "ExtraParams r ''temperature'' = None" and "ExtraParams r ''max_tokens'' = None"
    and "ExtraParams r ''top_p'' = None" and "ExtraParams r ''top_k'' = None"
    and "ExtraParams r ''p'' = None" and "ExtraParams r ''k'' = None"
  shows "openAIClient_buildPayload c r ''temperature''
           = map_option JFloat (resolve (Temperature r) (DefaultTemperature (clientConfig c)))
       \<and> openAIClient_buildPayload c r ''max_tokens''
           = map_option JInt (resolve (MaxTokens r) (DefaultMaxTokens (clientConfig c)))
       \<and> openAIClient_buildPayload c r ''top_p''
           = map_option JFloat (resolve (TopP r) (DefaultTopP (clientConfig c)))
       \<and> openAIClient_buildPayload c r ''top_k'' = None
       \<and> azureClient_buildPayload c r ''temperature''
           = map_option JFloat (resolve (Temperature r) (DefaultTemperature (clientConfig c)))
       \<and> azureClient_buildPayload c r ''max_tokens''
           = map_option JInt (resolve (MaxTokens r) (DefaultMaxTokens (clientConfig c)))
       \<and> azureClient_buildPayload c r ''top_p''
           = map_option JFloat (resolve (TopP r) (DefaultTopP (clientConfig c)))
       \<and> azureClient_buildPayload c r ''top_k'' = None
       \<and> qwenClient_buildPayload c r ''temperature''
           = map_option JFloat (resolve (Temperature r) (DefaultTemperature (clientConfig c)))
       \<and> qwenClient_buildPayload c r ''max_tokens''
           = Some (JInt (case resolve (MaxTokens r) (DefaultMaxTokens (clientConfig c)) of
                           Some m \<Rightarrow> m | None \<Rightarrow> 1500))
       \<and> qwenClient_buildPayload c r ''top_p''
           = map_option JFloat (resolve (TopP r) (DefaultTopP (clientConfig c)))
       \<and> qwenClient_buildPayload c r ''top_k''
           = map_option JInt (resolve (TopK r) (DefaultTopK (clientConfig c)))
       \<and> qwenLegacy_parameters c r ''temperature''
           = map_option JFloat (resolve (Temperature r) (DefaultTemperature (clientConfig c)))
       \<and> qwenLegacy_parameters c r ''max_tokens''
           = Some (JInt (case resolve (MaxTokens r) (DefaultMaxTokens (clientConfig c)) of
                           Some m \<Rightarrow> m | None \<Rightarrow> 1500))
       \<and> qwenLegacy_parameters c r ''top_p''
           = map_option JFloat (resolve (TopP r) (DefaultTopP (clientConfig c)))
       \<and> qwenLegacy_parameters c r ''top_k''
           = map_option JInt (resolve (TopK r) (DefaultTopK (clientConfig c)))
       \<and> cohereClient_buildPayload c r ''temperature''
           = map_option JFloat (resolve (Temperature r) (DefaultTemperature (clientConfig c)))
       \<and> cohereClient_buildPayload c r ''max_tokens''
           = map_option JInt (resolve (MaxTokens r) (DefaultMaxTokens (clientConfig c)))
       \<and> cohereClient_buildPayload c r ''p''
           = map_option JFloat (resolve (TopP r) (DefaultTopP (clientConfig c)))
       \<and> cohereClient_buildPayload c r ''k''
           = map_option JInt (resolve (TopK r) (DefaultTopK (clientConfig c)))"
  using openAI_params [OF assms(1-4), of c] azure_params [OF assms(1-4), of c]
    qwen_params [OF assms(1-4), of c] qwenLegacy_params [of c r]
    cohere_params [OF assms(1,2,5,6), of c]
  by blast

theorem sampling_parameters_resolved_witness:
  "ExtraParams (zeroRequest\<lparr>Temperature := Some 1, TopK := Some 5\<rparr>) ''temperature'' = None
   \<and> ExtraParams (zeroRequest\<lparr>Temperature := Some 1, TopK := Some 5\<rparr>) ''max_tokens'' = None
   \<and> ExtraParams (zeroRequest\<lparr>Temperature := Some 1, TopK := Some 5\<rparr>) ''top_p'' = None
   \<and> ExtraParams (zeroRequest\<lparr>Temperature := Some 1, TopK := Some 5\<rparr>) ''top_k'' = None
   \<and> ExtraParams (zeroRequest\<lparr>Temperature := Some 1, TopK := Some 5\<rparr>) ''p'' = None
   \<and> ExtraParams (zeroRequest\<lparr>Temperature := Some 1, TopK := Some 5\<rparr>) ''k'' = None
   \<and> openAIClient_buildPayload
        (stubAdapter\<lparr>clientConfig := zeroConfig\<lparr>DefaultTopP := Some 2\<rparr>\<rparr>)
        (zeroRequest\<lparr>Temperature := Some 1, TopK := Some 5\<rparr>) ''temperature''
       = Some (JFloat 1)
   \<and> openAIClient_buildPayload
        (stubAdapter\<lparr>clientConfig := zeroConfig\<lparr>DefaultTopP := Some 2\<rparr>\<rparr>)
        (zeroRequest\<lparr>Temperature := Some 1, TopK := Some 5\<rparr>) ''top_p''
       = Some (JFloat 2)
   \<and> openAIClient_buildPayload
        (stubAdapter\<lparr>clientConfig := zeroConfig\<lparr>DefaultTopP := Some 2\<rparr>\<rparr>)
        (zeroRequest\<lparr>Temperature := Some 1, TopK := Some 5\<rparr>) ''max_tokens''
       = None
   \<and> qwenClient_buildPayload
        (stubAdapter\<lparr>clientConfig := zeroConfig\<lparr>DefaultTopP := Some 2\<rparr>\<rparr>)
        (zeroRequest\<lparr>Temperature := Some 1, TopK := Some 5\<rparr>) ''max_tokens''
       = Some (JInt 1500)
   \<and> cohereClient_buildPayload
        (stubAdapter\<lparr>clientConfig := zeroConfig\<lparr>DefaultTopP := Some 2\<rparr>\<rparr>)
        (zeroRequest\<lparr>Temperature := Some 1, TopK := Some 5\<rparr>) ''k''
       = Some (JInt 5)"
proof -
  let ?r = "zeroRequest\<lparr>Temperature := Some 1, TopK := Some 5\<rparr>"
  let ?c = "stubAdapter\<lparr>clientConfig := zeroConfig\<lparr>DefaultTopP := Some 2\<rparr>\<rparr>"
  have e: "ExtraParams ?r ''temperature'' = None" "ExtraParams ?r ''max_tokens'' = None"
    "ExtraParams ?r ''top_p'' = None" "ExtraParams ?r ''top_k'' = None"
    "ExtraParams ?r ''p'' = None" "ExtraParams ?r ''k'' = None"
    by (simp_all add: zeroRequest_def)
  from sampling_parameters_resolved [OF e, of ?c] e show ?thesis
    by (simp add: resolve_def zeroRequest_def zeroConfig_def)
qed

text \<open>
  Claim C10. For every request and every key that its \<^verbatim>\<open>ExtraParams\<close> holds, the payload of
  the OpenAI-compatible, the Azure, the Qwen (OpenAI-compatible revision) and the Cohere
  builder has the caller's value under that key, whatever the adapter computed for it:
  the builders copy \<^verbatim>\<open>ExtraParams\<close> into the payload after all named fields.
\<close>

theorem ExtraParams_override:
  assumes "ExtraParams request k = Some v"
  shows "openAIClient_buildPayload c request k = Some v
       \<and> azureClient_buildPayload c request k = Some v
       \<and> qwenClient_buildPayload c request k = Some v
       \<and> cohereClient_buildPayload c request k = Some v"
proof -
  have 1: "openAIClient_buildPayload c request k = Some v"
    unfolding openAIClient_buildPayload_def Let_def using assms by (rule add_some)
  have 2: "azureClient_buildPayload c request k = Some v"
    unfolding azureClient_buildPayload_def Let_def using assms by (rule add_some)
  have 3: "qwenClient_buildPayload c request k = Some v"
    unfolding qwenClient_buildPayload_def Let_def using assms by (rule add_some)
  have 4: "cohereClient_buildPayload c request k = Some v"
    unfolding cohereClient_buildPayload_def Let_def split_def using assms by (rule add_some)
  from 1 2 3 4 show ?thesis by simp
qed

theorem ExtraParams_override_witness:
  "ExtraParams (zeroRequest\<lparr>ExtraParams := [''model'' \<mapsto> JString ''mine'']\<rparr>) ''model''
     = Some (JString ''mine'')
   \<and> openAIClient_getModel stubAdapter
       (Model (zeroRequest\<lparr>ExtraParams := [''model'' \<mapsto> JString ''mine'']\<rparr>)) = []
   \<and> openAIClient_buildPayload stubAdapter
       (zeroRequest\<lparr>ExtraParams := [''model'' \<mapsto> JString ''mine'']\<rparr>) ''model''
       = Some (JString ''mine'')
   \<and> qwenClient_buildPayload stubAdapter
       (zeroRequest\<lparr>ExtraParams := [''model'' \<mapsto> JString ''mine'']\<rparr>) ''model''
       = Some (JString ''mine'')
   \<and> cohereClient_buildPayload stubAdapter
       (zeroRequest\<lparr>ExtraParams := [''model'' \<mapsto> JString ''mine'']\<rparr>) ''model''
       = Some (JString ''mine'')"
proof -
  let ?r = "zeroRequest\<lparr>ExtraParams := [''model'' \<mapsto> JString ''mine'']\<rparr>"
  have e: "ExtraParams ?r ''model'' = Some (JString ''mine'')"
    by simp
  from ExtraParams_override [OF e, of stubAdapter] e show ?thesis
    by (simp add: openAIClient_getModel_def zeroRequest_def stubAdapter_def zeroConfig_def)
qed

lemma qwenLegacy_ignores_ExtraParams:
  "qwenLegacy_buildPayload c (request\<lparr>ExtraParams := e\<rparr>) = qwenLegacy_buildPayload c request"
  by (simp add: qwenLegacy_buildPayload_def)

section \<open>What a call leaves untouched\<close>

lemma readSlice_valid:
  assumes "validSlice st s"
  shows "length (readSlice st s) = Len s"
  using assms by (auto simp: validSlice_def readSlice_def)

lemma readSlice_extend:
  assumes "validSlice st s"
  shows "readSlice (st\<lparr>Arrays := Arrays st @ new\<rparr>) s = readSlice st s"
  using assms by (auto simp: validSlice_def readSlice_def nth_append)

lemma writeAt_fresh:
  "writeAt 0 xs (replicate (length xs + 1) z) = xs @ [z]"
proof -
  have "replicate (length xs + 1) z = replicate (length xs) z @ [z]"
    by (simp add: replicate_append_same)
  then show ?thesis by (simp add: writeAt_def)
qed

lemma writeAt_last:
  "writeAt (length xs) [u] (xs @ [z]) = xs @ [u]"
  by (simp add: writeAt_def)

lemma BuildChatRequest_st_eq:
  assumes "validSlice st history"
  shows "BuildChatRequest_st env history um st =
     (\<lparr>Arr = length (Arrays st), Off = 0, Len = Len history + 1, Cap = Len history + 1\<rparr>,
      st\<lparr>Arrays := Arrays st @
           [readSlice st history @ [\<lparr>Role = RoleUser, Content = um, Name = []\<rparr>]]\<rparr>)"
proof -
  let ?hs = "readSlice st history"
  let ?a = "length (Arrays st)"
  let ?u = "\<lparr>Role = RoleUser, Content = um, Name = []\<rparr>"
  have n: "length ?hs = Len history"
    using assms by (rule readSlice_valid)
  let ?st1 = "st\<lparr>Arrays := Arrays st @ [replicate (Len history + 1) zeroMessage]\<rparr>"
  let ?m1 = "\<lparr>Arr = ?a, Off = 0, Len = 0, Cap = Len history + 1\<rparr>"
  have mk: "makeSlice (Len history + 1) st = (?m1, ?st1)"
    by (simp add: makeSlice_def)
  have rd: "readSlice ?st1 history = ?hs"
    using assms by (rule readSlice_extend)
  let ?st2 = "st\<lparr>Arrays := Arrays st @ [?hs @ [zeroMessage]]\<rparr>"
  let ?m2 = "\<lparr>Arr = ?a, Off = 0, Len = Len history, Cap = Len history + 1\<rparr>"
  have ap1: "appendSlice env ?m1 ?hs ?st1 = (?m2, ?st2)"
  proof (cases "?hs = []")
    case True
    then have "Len history = 0" using n by simp
    then show ?thesis using True by (simp add: appendSlice_def)
  next
    case False
    have "writeAt 0 ?hs (replicate (Len history + 1) zeroMessage) = ?hs @ [zeroMessage]"
      using writeAt_fresh [of ?hs zeroMessage] n by simp
    then show ?thesis using False n by (simp add: appendSlice_def)
  qed
  have ap2: "appendSlice env ?m2 [?u] ?st2 =
      (\<lparr>Arr = ?a, Off = 0, Len = Len history + 1, Cap = Len history + 1\<rparr>,
       st\<lparr>Arrays := Arrays st @ [?hs @ [?u]]\<rparr>)"
    using writeAt_last [of ?hs ?u zeroMessage] n by (simp add: appendSlice_def)
  show ?thesis
    by (simp only: BuildChatRequest_st_def mk Let_def prod.case rd ap1 ap2)
qed


lemma AddSystemMessage_st_eq:
  assumes "validSlice st messages" "0 < Len messages"
  shows "AddSystemMessage_st env content messages st =
     (\<lparr>Arr = length (Arrays st) + 1, Off = 0, Len = Len messages + 1,
       Cap = sysCap env (Len messages)\<rparr>,
      st\<lparr>Arrays := Arrays st @
           [ [\<lparr>Role = RoleSystem, Content = content, Name = []\<rparr>],
            [\<lparr>Role = RoleSystem, Content = content, Name = []\<rparr>] @ readSlice st messages
              @ replicate (sysCap env (Len messages) - (Len messages + 1)) zeroMessage]\<rparr>)"
proof -
  let ?s = "\<lparr>Role = RoleSystem, Content = content, Name = []\<rparr>"
  let ?ms = "readSlice st messages"
  have n: "length ?ms = Len messages"
    using assms(1) by (rule readSlice_valid)
  let ?st1 = "st\<lparr>Arrays := Arrays st @ [ [?s]]\<rparr>"
  let ?lit = "\<lparr>Arr = length (Arrays st), Off = 0, Len = length [?s], Cap = length [?s]\<rparr>"
  have l: "literalSlice [?s] st = (?lit, ?st1)"
    by (simp add: literalSlice_def)
  have rd: "readSlice ?st1 messages = ?ms"
    using assms(1) by (rule readSlice_extend)
  have ne: "?ms \<noteq> []" using n assms(2) by auto
  have lit: "readSlice ?st1 ?lit = [?s]"
    by (simp add: readSlice_def)
  have ap: "appendSlice env ?lit ?ms ?st1 =
     (\<lparr>Arr = length (Arrays st) + 1, Off = 0, Len = Len messages + 1,
       Cap = sysCap env (Len messages)\<rparr>,
      st\<lparr>Arrays := Arrays st @
           [ [?s], [?s] @ ?ms @ replicate (sysCap env (Len messages) - (Len messages + 1)) zeroMessage]\<rparr>)"
    using ne n lit assms(2) by (simp add: appendSlice_def Let_def sysCap_def)
  show ?thesis
    by (simp only: AddSystemMessage_st_def l Let_def prod.case rd ap)
qed


lemma Client_Generate_st_frame:
  "Clients (snd (Client_Generate_st env p ctx messages request st)) = Clients st
   \<and> Arrays (snd (Client_Generate_st env p ctx messages request st)) = Arrays st"
  by (simp add: Client_Generate_st_def split_def Let_def)

lemma Client_Generate_st_result:
  "(fst (Client_Generate_st env p ctx messages request st),
    Sent (snd (Client_Generate_st env p ctx messages request st)))
   = Client_Generate env (Clients st ! p) ctx
       (request\<lparr>ReqMessages := readSlice st messages\<rparr>) (Sent st)"
  by (simp add: Client_Generate_st_def split_def Let_def)

lemma Client_Generate_st_read:
  "readSlice (snd (Client_Generate_st env p ctx messages request st)) s = readSlice st s"
  by (simp add: Client_Generate_st_def split_def Let_def readSlice_def)

lemma frame_step:
  assumes g: "call = Client_Generate_st env p ctx r zeroRequest st2"
    and c: "Clients st2 = Clients st" "Sent st2 = Sent st"
      "take (length (Arrays st)) (Arrays st2) = Arrays st"
    and k: "readSlice st2 history = readSlice st history"
    and r: "readSlice st2 r = msgs"
  shows "Clients (snd call) = Clients st
       \<and> take (length (Arrays st)) (Arrays (snd call)) = Arrays st
       \<and> readSlice (snd call) history = readSlice st history
       \<and> (fst call, Sent (snd call))
           = Client_Generate env (Clients st ! p) ctx (zeroRequest\<lparr>ReqMessages := msgs\<rparr>) (Sent st)"
proof -
  have 1: "Clients (snd call) = Clients st"
    unfolding g using Client_Generate_st_frame [of env p ctx r zeroRequest st2] c by simp
  have 2: "take (length (Arrays st)) (Arrays (snd call)) = Arrays st"
    unfolding g using Client_Generate_st_frame [of env p ctx r zeroRequest st2] c by simp
  have 3: "readSlice (snd call) history = readSlice st history"
    unfolding g Client_Generate_st_read by (rule k)
  have 4: "(fst call, Sent (snd call))
           = Client_Generate env (Clients st ! p) ctx (zeroRequest\<lparr>ReqMessages := msgs\<rparr>) (Sent st)"
    unfolding g Client_Generate_st_result r c ..
  from 1 2 3 4 show ?thesis by blast
qed

lemma Client_GenerateWithHistory_st_frame:
  assumes "validSlice st history"
  shows "Clients (snd (Client_GenerateWithHistory_st env p ctx history um sp st)) = Clients st
       \<and> take (length (Arrays st))
            (Arrays (snd (Client_GenerateWithHistory_st env p ctx history um sp st))) = Arrays st
       \<and> readSlice (snd (Client_GenerateWithHistory_st env p ctx history um sp st)) history
           = readSlice st history
       \<and> (fst (Client_GenerateWithHistory_st env p ctx history um sp st),
          Sent (snd (Client_GenerateWithHistory_st env p ctx history um sp st)))
           = Client_GenerateWithHistory env (Clients st ! p) ctx
               \<lparr>Messages = readSlice st history\<rparr> um sp (Sent st)"
proof -
  let ?hs = "readSlice st history"
  let ?u = "\<lparr>Role = RoleUser, Content = um, Name = []\<rparr>"
  let ?s = "\<lparr>Role = RoleSystem, Content = sp, Name = []\<rparr>"
  let ?r1 = "\<lparr>Arr = length (Arrays st), Off = 0, Len = Len history + 1, Cap = Len history + 1\<rparr>"
  let ?st1 = "st\<lparr>Arrays := Arrays st @ [?hs @ [?u]]\<rparr>"
  have n: "length ?hs = Len history"
    using assms by (rule readSlice_valid)
  have b: "BuildChatRequest_st env history um st = (?r1, ?st1)"
    using assms by (rule BuildChatRequest_st_eq)
  have v1: "validSlice ?st1 ?r1"
    using n by (simp add: validSlice_def)
  have r1: "readSlice ?st1 ?r1 = ?hs @ [?u]"
    using n by (simp add: readSlice_def)
  have keep: "\<And>new. readSlice (st\<lparr>Arrays := Arrays st @ new\<rparr>) history = ?hs"
    using assms by (rule readSlice_extend)
  have v: "Client_GenerateWithHistory env (Clients st ! p) ctx \<lparr>Messages = ?hs\<rparr> um sp (Sent st)
           = Client_Generate env (Clients st ! p) ctx
               (zeroRequest\<lparr>ReqMessages := (if sp \<noteq> [] then [?s] else []) @ ?hs @ [?u]\<rparr>)
               (Sent st)"
    unfolding Client_GenerateWithHistory_eq by (simp add: GetMessages_def)
  show ?thesis
  proof (cases "sp = []")
    case True
    have g: "Client_GenerateWithHistory_st env p ctx history um sp st
               = Client_Generate_st env p ctx ?r1 zeroRequest ?st1"
      using True by (simp only: Client_GenerateWithHistory_st_def b Let_def prod.case) simp
    have m: "readSlice ?st1 ?r1 = (if sp \<noteq> [] then [?s] else []) @ ?hs @ [?u]"
      using True r1 by simp
    show ?thesis
      unfolding v
      by (rule frame_step [OF g _ _ _ keep m]) simp_all
  next
    case False
    let ?cap = "sysCap env (Len ?r1)"
    let ?r2 = "\<lparr>Arr = length (Arrays ?st1) + 1, Off = 0, Len = Len ?r1 + 1, Cap = ?cap\<rparr>"
    let ?new = "[ [?s], [?s] @ readSlice ?st1 ?r1 @ replicate (?cap - (Len ?r1 + 1)) zeroMessage]"
    let ?st2 = "?st1\<lparr>Arrays := Arrays ?st1 @ ?new\<rparr>"
    have a: "AddSystemMessage_st env sp ?r1 ?st1 = (?r2, ?st2)"
      using v1 by (rule AddSystemMessage_st_eq) simp
    have g: "Client_GenerateWithHistory_st env p ctx history um sp st
               = Client_Generate_st env p ctx ?r2 zeroRequest ?st2"
      using False
      by (simp only: Client_GenerateWithHistory_st_def b Let_def prod.case
          not_False_eq_True if_True a)
    have m: "readSlice ?st2 ?r2 = (if sp \<noteq> [] then [?s] else []) @ ?hs @ [?u]"
      using False n r1 by (simp add: readSlice_def nth_append)
    have k2: "readSlice ?st2 history = ?hs"
      using keep [of "[?hs @ [?u]] @ ?new"] by simp
    show ?thesis
      unfolding v
      by (rule frame_step [OF g _ _ _ k2 m]) simp_all
  qed
qed


text \<open>
  Claim C9. For every adapter, every chat history and every input, a call to \<open>Generate\<close> or
  to \<open>GenerateWithHistory\<close> leaves the adapter structs, hence each adapter's stored
  \<open>Config\<close>, as they were, and leaves every backing array that existed before the call as
  it was: \<open>GenerateWithHistory\<close> builds the outgoing request in arrays it allocates and never
  writes into the array of the history passed in, so the caller's history reads the same
  messages after the call. This holds whatever the call returns, in particular when it
  returns an error. The result and the requests sent are those of the call on values.
\<close>

theorem failed_call_frame:
  assumes "validSlice st history"
  shows "Clients (snd (Client_Generate_st env p ctx messages request st)) = Clients st
       \<and> Arrays (snd (Client_Generate_st env p ctx messages request st)) = Arrays st
       \<and> Clients (snd (Client_GenerateWithHistory_st env p ctx history um sp st)) = Clients st
       \<and> take (length (Arrays st))
            (Arrays (snd (Client_GenerateWithHistory_st env p ctx history um sp st))) = Arrays st
       \<and> readSlice (snd (Client_GenerateWithHistory_st env p ctx history um sp st)) history
           = readSlice st history
       \<and> (fst (Client_GenerateWithHistory_st env p ctx history um sp st),
          Sent (snd (Client_GenerateWithHistory_st env p ctx history um sp st)))
           = Client_GenerateWithHistory env (Clients st ! p) ctx
               \<lparr>Messages = readSlice st history\<rparr> um sp (Sent st)"
  using Client_Generate_st_frame [of env p ctx messages request st]
    Client_GenerateWithHistory_st_frame [OF assms, of env p ctx um sp]
  by blast

theorem failed_call_frame_witness:
  "validSlice
     \<lparr>Arrays = [ [\<lparr>Role = ''user'', Content = ''a'', Name = []\<rparr>,
                  \<lparr>Role = ''assistant'', Content = ''b'', Name = []\<rparr>]],
      Clients = [OpenAIClient stubAdapter], Sent = []\<rparr>
     \<lparr>Arr = 0, Off = 0, Len = 2, Cap = 2\<rparr>
   \<and> fst (Client_GenerateWithHistory_st (stubEnv 429 None None None) 0 (Context 0)
            \<lparr>Arr = 0, Off = 0, Len = 2, Cap = 2\<rparr> ''c'' ''s''
            \<lparr>Arrays = [ [\<lparr>Role = ''user'', Content = ''a'', Name = []\<rparr>,
                         \<lparr>Role = ''assistant'', Content = ''b'', Name = []\<rparr>]],
             Clients = [OpenAIClient stubAdapter], Sent = []\<rparr>)
       = Inl (RemoteAPIError ''LLM API error'' 429 ''body'')
   \<and> Clients (snd (Client_GenerateWithHistory_st (stubEnv 429 None None None) 0 (Context 0)
            \<lparr>Arr = 0, Off = 0, Len = 2, Cap = 2\<rparr> ''c'' ''s''
            \<lparr>Arrays = [ [\<lparr>Role = ''user'', Content = ''a'', Name = []\<rparr>,
                         \<lparr>Role = ''assistant'', Content = ''b'', Name = []\<rparr>]],
             Clients = [OpenAIClient stubAdapter], Sent = []\<rparr>))
       = [OpenAIClient stubAdapter]
   \<and> readSlice (snd (Client_GenerateWithHistory_st (stubEnv 429 None None None) 0 (Context 0)
            \<lparr>Arr = 0, Off = 0, Len = 2, Cap = 2\<rparr> ''c'' ''s''
            \<lparr>Arrays = [ [\<lparr>Role = ''user'', Content = ''a'', Name = []\<rparr>,
                         \<lparr>Role = ''assistant'', Content = ''b'', Name = []\<rparr>]],
             Clients = [OpenAIClient stubAdapter], Sent = []\<rparr>))
         \<lparr>Arr = 0, Off = 0, Len = 2, Cap = 2\<rparr>
       = [\<lparr>Role = ''user'', Content = ''a'', Name = []\<rparr>,
          \<lparr>Role = ''assistant'', Content = ''b'', Name = []\<rparr>]"
proof -
  let ?st = "\<lparr>Arrays = [ [\<lparr>Role = ''user'', Content = ''a'', Name = []\<rparr>,
                          \<lparr>Role = ''assistant'', Content = ''b'', Name = []\<rparr>]],
              Clients = [OpenAIClient stubAdapter], Sent = []\<rparr>"
  let ?h = "\<lparr>Arr = 0, Off = 0, Len = 2, Cap = 2\<rparr>"
  let ?env = "stubEnv 429 None None None"
  have v: "validSlice ?st ?h"
    by (simp add: validSlice_def)
  have r: "readSlice ?st ?h = [\<lparr>Role = ''user'', Content = ''a'', Name = []\<rparr>,
                               \<lparr>Role = ''assistant'', Content = ''b'', Name = []\<rparr>]"
    by (simp add: readSlice_def)
  have g: "fst (Client_GenerateWithHistory ?env (OpenAIClient stubAdapter) (Context 0)
                  \<lparr>Messages = [\<lparr>Role = ''user'', Content = ''a'', Name = []\<rparr>,
                               \<lparr>Role = ''assistant'', Content = ''b'', Name = []\<rparr>]\<rparr>
                  ''c'' ''s'' [])
           = Inl (RemoteAPIError ''LLM API error'' 429 ''body'')"
    by (simp add: Client_GenerateWithHistory_def openAIClient_GenerateWithHistory_def
        openAIClient_Generate_def roundTrip_def stubEnv_def Let_def)
  from failed_call_frame [OF v, of ?env 0 "Context 0" ?h zeroRequest "''c''" "''s''"]
  have c: "Clients (snd (Client_GenerateWithHistory_st ?env 0 (Context 0) ?h ''c'' ''s'' ?st))
             = Clients ?st"
    and k: "readSlice (snd (Client_GenerateWithHistory_st ?env 0 (Context 0) ?h ''c'' ''s'' ?st)) ?h
             = readSlice ?st ?h"
    and e: "(fst (Client_GenerateWithHistory_st ?env 0 (Context 0) ?h ''c'' ''s'' ?st),
             Sent (snd (Client_GenerateWithHistory_st ?env 0 (Context 0) ?h ''c'' ''s'' ?st)))
             = Client_GenerateWithHistory ?env (Clients ?st ! 0) (Context 0)
                 \<lparr>Messages = readSlice ?st ?h\<rparr> ''c'' ''s'' (Sent ?st)"
    by blast+
  from e have f: "fst (Client_GenerateWithHistory_st ?env 0 (Context 0) ?h ''c'' ''s'' ?st)
                  = fst (Client_GenerateWithHistory ?env (Clients ?st ! 0) (Context 0)
                      \<lparr>Messages = readSlice ?st ?h\<rparr> ''c'' ''s'' (Sent ?st))"
    by (metis fst_conv)
  show ?thesis
    using v c k f g r by simp
qed

end
